theory Spec2Isabelle
  imports Main "HOL-Library.Word"
begin

unbundle bit_operations_syntax

section \<open>The Bemfa protocol controller of xiaozhi-esp32\<close>

text \<open>
  The repository holds two versions of \<^verbatim>\<open>bemfa_protocol.cc\<close>: the fuller one
  (\<^verbatim>\<open>src/unnamed/part_000\<close>), which sends a hello request, waits for the server's hello and
  parses it, and \<^verbatim>\<open>src/main/protocols/bemfa_protocol.cc\<close>, which has no handshake. The
  functions of the first keep their names; those of the second that differ carry the suffix
  \<open>_main\<close>. \<^verbatim>\<open>CharToHex\<close>, \<^verbatim>\<open>DecodeHexString\<close> and \<^verbatim>\<open>IsAudioChannelOpened\<close> are the same text in
  both files.
\<close>

subsection \<open>Bytes, faults and results\<close>

type_synonym u8 = "8 word"
type_synonym u32 = "32 word"

text \<open>
  A fault is what the C++ leaves undefined and the ESP32 answers with a panic: reading through
  a null pointer, or using an object after \<^verbatim>\<open>delete\<close>. A function that can fault returns
  \<open>fault + 'a\<close>; nothing of the state survives a fault.
\<close>

datatype fault = NullPointerDereference | DanglingPointerUse

definition and_then :: "fault + 'a \<Rightarrow> ('a \<Rightarrow> fault + 'b) \<Rightarrow> fault + 'b" where
  "and_then r f = (case r of Inl e \<Rightarrow> Inl e | Inr x \<Rightarrow> f x)"

text \<open>\<^verbatim>\<open>p->field\<close> for a pointer that may be null.\<close>

definition deref :: "'a option \<Rightarrow> fault + 'a" where
  "deref p = (case p of None \<Rightarrow> Inl NullPointerDereference | Some x \<Rightarrow> Inr x)"

subsection \<open>Hex decoding\<close>

text \<open>
  \<^verbatim>\<open>static inline uint8_t CharToHex(char c)\<close>: the comparisons and the subtractions are done on
  \<^verbatim>\<open>int\<close> (integer promotion), the result is narrowed to eight bits.
\<close>

definition CharToHex :: "char \<Rightarrow> u8" where
  "CharToHex c =
     (let n = (of_char c :: int) in
      if of_char CHR ''0'' \<le> n \<and> n \<le> of_char CHR ''9'' then word_of_int (n - of_char CHR ''0'')
      else if of_char CHR ''A'' \<le> n \<and> n \<le> of_char CHR ''F'' then word_of_int (n - of_char CHR ''A'' + 10)
      else if of_char CHR ''a'' \<le> n \<and> n \<le> of_char CHR ''f'' then word_of_int (n - of_char CHR ''a'' + 10)
      else 0)"

text \<open>
  \<^verbatim>\<open>hex_string[i]\<close> of a \<^verbatim>\<open>std::string\<close>: the character at \<open>i\<close>, and the terminating
  \<^verbatim>\<open>'\0'\<close> at \<open>i = size()\<close>, which the loop reads as the low digit of a string of odd length.
\<close>

definition string_at :: "string \<Rightarrow> nat \<Rightarrow> char" where
  "string_at s i = (if i < length s then s ! i else CHR 0x00)"

text \<open>
  The loop of \<^verbatim>\<open>DecodeHexString\<close>: \<^verbatim>\<open>for (size_t i = 0; i < hex_string.size(); i += 2)\<close>, with
  \<open>decoded\<close> the bytes pushed so far. The \<^verbatim>\<open>std::string\<close> it returns is a byte buffer.
\<close>

function DecodeHexString_loop :: "string \<Rightarrow> nat \<Rightarrow> u8 list \<Rightarrow> u8 list" where
  "DecodeHexString_loop hex_string i decoded =
     (if i < length hex_string
      then DecodeHexString_loop hex_string (i + 2)
             (decoded @ [push_bit 4 (CharToHex (string_at hex_string i))
                           OR CharToHex (string_at hex_string (i + 1))])
      else decoded)"
  by pat_completeness auto
termination
  by (relation "measure (\<lambda>(hex_string, i, decoded). length hex_string - i)") auto

definition DecodeHexString :: "string \<Rightarrow> u8 list" where
  "DecodeHexString hex_string = DecodeHexString_loop hex_string 0 []"

text \<open>
  The spec's words for the decoder, to compare the code with: a hex digit has its value, a
  malformed digit the nibble value 0, and a pair of digits packs into one byte, high digit first.
\<close>

definition spec_nibble :: "char \<Rightarrow> nat" where
  "spec_nibble c =
     (case find (\<lambda>(d, v). d = c)
             (zip ''0123456789ABCDEFabcdef''
                  [0, 1, 2, 3, 4, 5, 6, 7, 8, 9, 10, 11, 12, 13, 14, 15, 10, 11, 12, 13, 14, 15]) of
        Some (d, v) \<Rightarrow> v
      | None \<Rightarrow> 0)"

definition spec_packed_byte :: "char \<times> char \<Rightarrow> u8" where
  "spec_packed_byte p = of_nat (16 * spec_nibble (fst p) + spec_nibble (snd p))"

definition digit_pairs :: "(char \<times> char) list \<Rightarrow> string" where
  "digit_pairs ps = concat (map (\<lambda>(hi, lo). [hi, lo]) ps)"

subsection \<open>JSON items, as the handlers read them through cJSON\<close>

text \<open>
  The payload reaches the handler as text and goes through \<^verbatim>\<open>cJSON_Parse\<close>; the model starts
  from the parsed tree (or from the null pointer \<^verbatim>\<open>cJSON_Parse\<close> returns for text that is not
  JSON). A number carries the value its \<^verbatim>\<open>valueint\<close> field holds.
\<close>

datatype cJSON =
    cJSON_Null
  | cJSON_False
  | cJSON_True
  | cJSON_Number int
  | cJSON_String string
  | cJSON_Array "cJSON list"
  | cJSON_Object "(string \<times> cJSON) list"

text \<open>\<^verbatim>\<open>item->valuestring\<close> is the null pointer for an item that is not a string.\<close>

definition valuestring :: "cJSON \<Rightarrow> string option" where
  "valuestring item = (case item of cJSON_String text \<Rightarrow> Some text | _ \<Rightarrow> None)"

text \<open>
  \<^verbatim>\<open>item->valueint\<close>: the value of a number; \<^verbatim>\<open>cJSON_Parse\<close> sets it to 1 for \<^verbatim>\<open>true\<close> and leaves
  it 0 for every other item.
\<close>

definition valueint :: "cJSON \<Rightarrow> int" where
  "valueint item = (case item of cJSON_Number n \<Rightarrow> n | cJSON_True \<Rightarrow> 1 | _ \<Rightarrow> 0)"

text \<open>
  \<^verbatim>\<open>cJSON_GetObjectItem\<close>: the first member whose name is the given one, upper and lower case
  taken as equal (as the library compares names); the null pointer when there is none.
\<close>

definition tolower :: "char \<Rightarrow> char" where
  "tolower c =
     (if (of_char CHR ''A'' :: nat) \<le> of_char c \<and> (of_char c :: nat) \<le> of_char CHR ''Z''
      then char_of (of_char c + (32 :: nat)) else c)"

definition cJSON_GetObjectItem :: "cJSON \<Rightarrow> string \<Rightarrow> cJSON option" where
  "cJSON_GetObjectItem object name =
     (case object of
        cJSON_Object members \<Rightarrow>
          map_option snd (find (\<lambda>member. map tolower (fst member) = map tolower name) members)
      | _ \<Rightarrow> None)"

text \<open>
  A \<^verbatim>\<open>char*\<close> handed to \<^verbatim>\<open>strcmp\<close>, compared with or assigned to a \<^verbatim>\<open>std::string\<close>: a fault
  when it is the null pointer.
\<close>

definition c_str :: "string option \<Rightarrow> fault + string" where
  "c_str p = (case p of None \<Rightarrow> Inl NullPointerDereference | Some text \<Rightarrow> Inr text)"

text \<open>\<^verbatim>\<open>std::to_string\<close> of an \<^verbatim>\<open>int\<close>.\<close>

fun to_string_nat :: "nat \<Rightarrow> string" where
  "to_string_nat n =
     (if n < 10 then [char_of (48 + n)]
      else to_string_nat (n div 10) @ [char_of (48 + n mod 10)])"

definition to_string :: "int \<Rightarrow> string" where
  "to_string n = (if n < 0 then CHR ''-'' # to_string_nat (nat (- n)) else to_string_nat (nat n))"

subsection \<open>The object and what it does to the outside\<close>

text \<open>
  What a call does beyond changing the members is written to a trace, in order: the calls into
  the MQTT client, the event group (the handshake synchronizer), the channel mutex, the
  application's scheduler and the registered callbacks.
\<close>

datatype event =
    MqttSetKeepAlive int
  | MqttConnect string int string string string bool
  | MqttSubscribe string int
  | MqttPublish string string bool
  | EventGroupClearBits
  | EventGroupSetBits
  | EventGroupWaitBits nat
  | ChannelMutexLock
  | ChannelMutexUnlock
  | DeleteUdp
  | ScheduleCloseAudioChannel
  | OnIncomingJson cJSON
  | OnAudioChannelClosed
  | SetErrorCalled string

text \<open>
  \<^verbatim>\<open>Mqtt* mqtt_\<close>: null, an object (connected or not), or a pointer left behind by
  \<^verbatim>\<open>delete mqtt_\<close>. \<^verbatim>\<open>Udp* udp_\<close>: null or an object; the code sets it to null when it deletes it.
\<close>

datatype mqtt_ptr = Mqtt_nullptr | Mqtt_object bool | Mqtt_deleted

datatype Udp = Udp

text \<open>
  The members of the base class \<^verbatim>\<open>Protocol\<close> that \<^verbatim>\<open>bemfa_protocol.cc\<close> reads and writes
  (\<^verbatim>\<open>protocol.h\<close> is not among the sources). The two callbacks are recorded as registered or
  not; a call of one is an event of the trace.
\<close>

record Protocol =
  session_id :: string
  busy_sending_audio :: bool
  error_occurred :: bool
  server_sample_rate :: int
  server_frame_duration :: int
  last_incoming_time :: int
  on_incoming_json :: bool
  on_audio_channel_closed :: bool

text \<open>
  The members of \<^verbatim>\<open>class BemfaProtocol\<close> (the header at the end of
  \<^verbatim>\<open>src/main/protocols/bemfa_protocol.cc\<close>). \<open>event_group\<close> is the bit
  \<^verbatim>\<open>BEMFA_MQTT_PROTOCOL_SERVER_HELLO_EVENT\<close> of \<^verbatim>\<open>event_group_handle_\<close>; \<open>aes_key\<close> is the key
  material handed to \<^verbatim>\<open>mbedtls_aes_setkey_enc\<close> (128 bits are read; where the decoded key is
  shorter the rest comes from the memory behind it and is not modelled). \<open>trace\<close> is the
  trace of events.
\<close>

record BemfaProtocol = Protocol +
  event_group :: bool
  endpoint :: string
  client_id :: string
  private_key :: string
  username :: string
  password :: string
  publish_topic :: string
  mqtt :: mqtt_ptr
  udp :: "Udp option"
  aes_key :: "u8 list"
  aes_nonce :: "u8 list"
  udp_server :: string
  udp_port :: int
  local_sequence :: u32
  remote_sequence :: u32
  trace :: "event list"

text \<open>
  Declarations of the repository that the two files use and that are not among the sources:
  \<^verbatim>\<open>Protocol::SetError\<close> (a member function of the base class, so it reaches the base members
  only), the macro \<^verbatim>\<open>OPUS_FRAME_DURATION_MS\<close> and the text \<^verbatim>\<open>Lang::Strings::SERVER_TIMEOUT\<close>.
  They are parameters of the model.
\<close>

record base_decls =
  SetError :: "string \<Rightarrow> Protocol \<Rightarrow> Protocol"
  OPUS_FRAME_DURATION_MS :: int
  SERVER_TIMEOUT :: string

text \<open>
  What the board and the broker answer during one call: whether \<^verbatim>\<open>Board::CreateMqtt\<close> returns
  an object, whether \<^verbatim>\<open>Connect\<close> and \<^verbatim>\<open>Publish\<close> return true.
\<close>

record network =
  CreateMqtt_succeeds :: bool
  Connect_succeeds :: bool
  Publish_succeeds :: bool

definition emit :: "event \<Rightarrow> BemfaProtocol \<Rightarrow> BemfaProtocol" where
  "emit e s = s\<lparr>trace := trace s @ [e]\<rparr>"

definition call_SetError :: "base_decls \<Rightarrow> string \<Rightarrow> BemfaProtocol \<Rightarrow> BemfaProtocol" where
  "call_SetError X message s =
     emit (SetErrorCalled message)
       (Protocol.extend (SetError X message (Protocol.truncate s)) (Protocol.more s))"

text \<open>
  The constructor \<^verbatim>\<open>BemfaProtocol::BemfaProtocol()\<close>, on the storage \<open>raw\<close> as the base
  constructor leaves it: it assigns the addressing members and creates the event group; the
  pointers are null and the strings empty by their initialisers; \<^verbatim>\<open>udp_port_\<close>, the two
  sequence counters and the AES context keep what the storage held.
\<close>

definition BemfaProtocol_ctor :: "BemfaProtocol \<Rightarrow> BemfaProtocol" where
  "BemfaProtocol_ctor raw =
     raw\<lparr>endpoint := ''bemfa.com'',
         client_id := ''6407f6655dd3de7ab3a5476d36c9ab26'',
         private_key := [],
         publish_topic := ''testtopic'',
         username := [],
         password := [],
         event_group := False,
         mqtt := Mqtt_nullptr,
         udp := None,
         aes_nonce := [],
         udp_server := [],
         trace := []\<rparr>"

subsection \<open>The functions of \<^verbatim>\<open>src/unnamed/part_000\<close>\<close>

text \<open>
  \<^verbatim>\<open>StartMqttClient\<close>, without the handler it registers (that is \<open>OnMessage\<close> below). An
  existing client is deleted and the pointer keeps its value until \<^verbatim>\<open>CreateMqtt\<close> is assigned
  to it.
\<close>

definition StartMqttClient :: "network \<Rightarrow> bool \<Rightarrow> BemfaProtocol \<Rightarrow> fault + (bool \<times> BemfaProtocol)" where
  "StartMqttClient net report_error s =
     and_then
       (case mqtt s of
          Mqtt_nullptr \<Rightarrow> Inr s
        | Mqtt_object connected \<Rightarrow> Inr (s\<lparr>mqtt := Mqtt_deleted\<rparr>)
        | Mqtt_deleted \<Rightarrow> Inl DanglingPointerUse)
       (\<lambda>s1.
          if endpoint s1 = [] then Inr (False, s1)
          else if \<not> CreateMqtt_succeeds net then Inr (False, s1\<lparr>mqtt := Mqtt_nullptr\<rparr>)
          else
            (let s2 = emit (MqttSetKeepAlive 90) (s1\<lparr>mqtt := Mqtt_object False\<rparr>) in
             if \<not> Connect_succeeds net
             then Inr (False,
                    emit (MqttConnect (endpoint s2) 9501 (client_id s2) (username s2) (password s2) False) s2)
             else Inr (True,
                    emit (MqttSubscribe (publish_topic s2) 1)
                      (emit (MqttConnect (endpoint s2) 9501 (client_id s2) (username s2) (password s2) True)
                         (s2\<lparr>mqtt := Mqtt_object True\<rparr>)))))"

definition Start :: "network \<Rightarrow> BemfaProtocol \<Rightarrow> fault + BemfaProtocol" where
  "Start net s = and_then (StartMqttClient net False s) (\<lambda>(connected, s'). Inr s')"

definition SendText :: "network \<Rightarrow> string \<Rightarrow> BemfaProtocol \<Rightarrow> fault + (bool \<times> BemfaProtocol)" where
  "SendText net text s =
     (case mqtt s of
        Mqtt_nullptr \<Rightarrow> Inr (False, s)
      | Mqtt_object connected \<Rightarrow>
          if publish_topic s = [] then Inr (False, s)
          else Inr (Publish_succeeds net,
                 emit (MqttPublish (publish_topic s @ ''/set'') text (Publish_succeeds net)) s)
      | Mqtt_deleted \<Rightarrow>
          if publish_topic s = [] then Inr (False, s) else Inl DanglingPointerUse)"

definition SendAudio :: "u8 list \<Rightarrow> BemfaProtocol \<Rightarrow> BemfaProtocol" where
  "SendAudio data s = s"

definition CloseAudioChannel :: "network \<Rightarrow> BemfaProtocol \<Rightarrow> fault + BemfaProtocol" where
  \<open>CloseAudioChannel net s =
     (let s1 = emit ChannelMutexLock s;
          s2 = (if udp s1 \<noteq> None then emit DeleteUdp (s1\<lparr>udp := None\<rparr>) else s1);
          s3 = emit ChannelMutexUnlock s2;
          message = ''{'' @ (''"session_id":"'' @ session_id s3 @ ''",'') @ ''"type":"goodbye"'' @ ''}''
      in and_then (SendText net message s3)
           (\<lambda>(sent, s4). Inr (if on_audio_channel_closed s4 then emit OnAudioChannelClosed s4 else s4)))\<close>

text \<open>
  \<^verbatim>\<open>ParseServerHello\<close>. With \<^verbatim>\<open>transport == nullptr\<close> the guard is true and the log line in
  its body reads \<^verbatim>\<open>transport->valuestring\<close>. Below the \<^verbatim>\<open>udp\<close> check the four members are read
  through the pointers \<^verbatim>\<open>cJSON_GetObjectItem\<close> returns, unchecked.
\<close>

definition ParseServerHello :: "cJSON \<Rightarrow> BemfaProtocol \<Rightarrow> fault + BemfaProtocol" where
  "ParseServerHello root s =
     (case cJSON_GetObjectItem root ''transport'' of
        None \<Rightarrow> Inl NullPointerDereference
      | Some transport \<Rightarrow>
          and_then (c_str (valuestring transport)) (\<lambda>transport_string.
          if transport_string \<noteq> ''udp'' then Inr s
          else
            and_then
              (case cJSON_GetObjectItem root ''session_id'' of
                 None \<Rightarrow> Inr s
               | Some session_id_item \<Rightarrow>
                   and_then (c_str (valuestring session_id_item)) (\<lambda>text. Inr (s\<lparr>session_id := text\<rparr>)))
              (\<lambda>s1.
                 let s2 =
                   (case cJSON_GetObjectItem root ''audio_params'' of
                      None \<Rightarrow> s1
                    | Some audio_params \<Rightarrow>
                        (let s1a =
                           (case cJSON_GetObjectItem audio_params ''sample_rate'' of
                              None \<Rightarrow> s1
                            | Some sample_rate \<Rightarrow> s1\<lparr>server_sample_rate := valueint sample_rate\<rparr>)
                         in case cJSON_GetObjectItem audio_params ''frame_duration'' of
                              None \<Rightarrow> s1a
                            | Some frame_duration \<Rightarrow>
                                s1a\<lparr>server_frame_duration := valueint frame_duration\<rparr>))
                 in
                   case cJSON_GetObjectItem root ''udp'' of
                     None \<Rightarrow> Inr s2
                   | Some udp_item \<Rightarrow>
                       and_then (deref (cJSON_GetObjectItem udp_item ''server'')) (\<lambda>server.
                       and_then (c_str (valuestring server)) (\<lambda>server_string.
                       and_then (deref (cJSON_GetObjectItem udp_item ''port'')) (\<lambda>port.
                       and_then (deref (cJSON_GetObjectItem udp_item ''key'')) (\<lambda>key.
                       and_then (deref (cJSON_GetObjectItem udp_item ''nonce'')) (\<lambda>nonce.
                       and_then (c_str (valuestring nonce)) (\<lambda>nonce_string.
                       and_then (c_str (valuestring key)) (\<lambda>key_string.
                         Inr (emit EventGroupSetBits
                               (s2\<lparr>udp_server := server_string,
                                   udp_port := valueint port,
                                   aes_nonce := DecodeHexString nonce_string,
                                   aes_key := take 16 (DecodeHexString key_string),
                                   local_sequence := 0,
                                   remote_sequence := 0,
                                   event_group := True\<rparr>))))))))))))"

text \<open>
  The handler \<^verbatim>\<open>StartMqttClient\<close> registers with \<^verbatim>\<open>mqtt_->OnMessage\<close>, run by the MQTT client's
  task for each payload; \<open>parsed\<close> is what \<^verbatim>\<open>cJSON_Parse\<close> returned and \<open>now\<close> the reading of
  the steady clock.
\<close>

definition OnMessage :: "int \<Rightarrow> cJSON option \<Rightarrow> BemfaProtocol \<Rightarrow> fault + BemfaProtocol" where
  "OnMessage now parsed s =
     (case parsed of
        None \<Rightarrow> Inr s
      | Some root \<Rightarrow>
          (case cJSON_GetObjectItem root ''type'' of
             None \<Rightarrow> Inr s
           | Some type \<Rightarrow>
               and_then (c_str (valuestring type)) (\<lambda>type_string.
               and_then
                 (if type_string = ''hello'' then ParseServerHello root s
                  else if type_string = ''goodbye'' then
                    (case cJSON_GetObjectItem root ''session_id'' of
                       None \<Rightarrow> Inr (emit ScheduleCloseAudioChannel s)
                     | Some session_id_item \<Rightarrow>
                         and_then (c_str (valuestring session_id_item)) (\<lambda>text.
                           Inr (if session_id s = text then emit ScheduleCloseAudioChannel s else s)))
                  else if on_incoming_json s then Inr (emit (OnIncomingJson root) s)
                  else Inr s)
                 (\<lambda>s'. Inr (s'\<lparr>last_incoming_time := now\<rparr>)))))"

text \<open>The payloads the MQTT client's task handles, in order, each with its clock reading.\<close>

fun deliver :: "(int \<times> cJSON option) list \<Rightarrow> BemfaProtocol \<Rightarrow> fault + BemfaProtocol" where
  "deliver [] s = Inr s"
| "deliver ((now, parsed) # rest) s = and_then (OnMessage now parsed s) (deliver rest)"

text \<open>
  \<^verbatim>\<open>OpenAudioChannel\<close>. The caller is suspended in \<^verbatim>\<open>xEventGroupWaitBits\<close> for at most
  \<^verbatim>\<open>pdMS_TO_TICKS(10000)\<close>; \<open>arriving\<close> are the payloads the MQTT client's task handles before
  the caller runs again. The wait clears the bit when it returns with it
  (\<^verbatim>\<open>xClearOnExit = pdTRUE\<close>).
\<close>

definition OpenAudioChannel ::
  "base_decls \<Rightarrow> network \<Rightarrow> (int \<times> cJSON option) list \<Rightarrow> BemfaProtocol \<Rightarrow> fault + (bool \<times> BemfaProtocol)" where
  \<open>OpenAudioChannel X net arriving s =
     and_then
       (case mqtt s of
          Mqtt_nullptr \<Rightarrow> StartMqttClient net True s
        | Mqtt_object connected \<Rightarrow> if connected then Inr (True, s) else StartMqttClient net True s
        | Mqtt_deleted \<Rightarrow> Inl DanglingPointerUse)
       (\<lambda>(started, s1).
          if \<not> started then Inr (False, s1)
          else
            (let s2 = emit EventGroupClearBits
                        (s1\<lparr>busy_sending_audio := False, error_occurred := False, session_id := [],
                            event_group := False\<rparr>);
                 message = ''{'' @ ''"type":"hello",'' @ ''"version": 3,'' @ ''"transport":"udp",''
                    @ ''"audio_params":{''
                    @ (''"format":"opus", "sample_rate":16000, "channels":1, "frame_duration":''
                         @ to_string (OPUS_FRAME_DURATION_MS X))
                    @ ''}}''
             in and_then (SendText net message s2)
                  (\<lambda>(sent, s3).
                     if \<not> sent then Inr (False, s3)
                     else
                       and_then (deliver arriving (emit (EventGroupWaitBits 10000) s3))
                         (\<lambda>s4.
                            if \<not> event_group s4 then Inr (False, call_SetError X (SERVER_TIMEOUT X) s4)
                            else Inr (True, s4\<lparr>event_group := False\<rparr>)))))\<close>

text \<open>
  Modelled from the spec: \<^verbatim>\<open>Protocol::IsTimeout\<close>, a member function of the base class that is
  not among the sources. The spec's liveness window: the time since \<open>last_incoming_time\<close> has
  elapsed when it is longer than the window. The window and the reading of the steady clock
  are parameters.
\<close>

definition IsTimeout :: "int \<Rightarrow> int \<Rightarrow> BemfaProtocol \<Rightarrow> bool" where
  "IsTimeout liveness_window now s = (liveness_window < now - last_incoming_time s)"

definition IsAudioChannelOpened :: "int \<Rightarrow> int \<Rightarrow> BemfaProtocol \<Rightarrow> bool" where
  "IsAudioChannelOpened liveness_window now s =
     (udp s \<noteq> None \<and> \<not> error_occurred s \<and> \<not> IsTimeout liveness_window now s)"

subsection \<open>The functions of \<^verbatim>\<open>src/main/protocols/bemfa_protocol.cc\<close> that differ\<close>

definition StartMqttClient_main :: "network \<Rightarrow> bool \<Rightarrow> BemfaProtocol \<Rightarrow> bool \<times> BemfaProtocol" where
  "StartMqttClient_main net report_error s =
     (if \<not> CreateMqtt_succeeds net then (False, s\<lparr>mqtt := Mqtt_nullptr\<rparr>)
      else
        (let s2 = emit (MqttSetKeepAlive 90) (s\<lparr>mqtt := Mqtt_object False\<rparr>) in
         if \<not> Connect_succeeds net
         then (False,
                emit (MqttConnect (endpoint s2) 9501 (client_id s2) (username s2) (password s2) False) s2)
         else (True,
                emit (MqttSubscribe (publish_topic s2) 1)
                  (emit (MqttConnect (endpoint s2) 9501 (client_id s2) (username s2) (password s2) True)
                     (s2\<lparr>mqtt := Mqtt_object True\<rparr>)))))"

definition Start_main :: "network \<Rightarrow> BemfaProtocol \<Rightarrow> BemfaProtocol" where
  "Start_main net s = snd (StartMqttClient_main net False s)"

definition SendText_main :: "network \<Rightarrow> string \<Rightarrow> BemfaProtocol \<Rightarrow> fault + (bool \<times> BemfaProtocol)" where
  "SendText_main net text s =
     (case mqtt s of
        Mqtt_nullptr \<Rightarrow> Inr (False, s)
      | Mqtt_object connected \<Rightarrow>
          if publish_topic s = [] then Inr (False, s)
          else Inr (Publish_succeeds net,
                 emit (MqttPublish (publish_topic s) text (Publish_succeeds net)) s)
      | Mqtt_deleted \<Rightarrow>
          if publish_topic s = [] then Inr (False, s) else Inl DanglingPointerUse)"

definition CloseAudioChannel_main :: "network \<Rightarrow> BemfaProtocol \<Rightarrow> fault + BemfaProtocol" where
  \<open>CloseAudioChannel_main net s =
     (let s1 = emit ChannelMutexLock s;
          s2 = (if udp s1 \<noteq> None then emit DeleteUdp (s1\<lparr>udp := None\<rparr>) else s1);
          s3 = emit ChannelMutexUnlock s2;
          message = ''{'' @ (''"session_id":"'' @ session_id s3 @ ''",'') @ ''"type":"goodbye"'' @ ''}''
      in and_then (SendText_main net message s3)
           (\<lambda>(sent, s4). Inr (if on_audio_channel_closed s4 then emit OnAudioChannelClosed s4 else s4)))\<close>

definition OnMessage_main :: "int \<Rightarrow> cJSON option \<Rightarrow> BemfaProtocol \<Rightarrow> fault + BemfaProtocol" where
  "OnMessage_main now parsed s =
     (case parsed of
        None \<Rightarrow> Inr s
      | Some root \<Rightarrow>
          (case cJSON_GetObjectItem root ''type'' of
             None \<Rightarrow> Inr s
           | Some type \<Rightarrow>
               and_then (c_str (valuestring type)) (\<lambda>type_string.
               and_then
                 (if type_string = ''goodbye'' then
                    (case cJSON_GetObjectItem root ''session_id'' of
                       None \<Rightarrow> Inr (emit ScheduleCloseAudioChannel s)
                     | Some session_id_item \<Rightarrow>
                         and_then (c_str (valuestring session_id_item)) (\<lambda>text.
                           Inr (if session_id s = text then emit ScheduleCloseAudioChannel s else s)))
                  else if on_incoming_json s then Inr (emit (OnIncomingJson root) s)
                  else Inr s)
                 (\<lambda>s'. Inr (s'\<lparr>last_incoming_time := now\<rparr>)))))"

definition OpenAudioChannel_main :: "network \<Rightarrow> BemfaProtocol \<Rightarrow> fault + (bool \<times> BemfaProtocol)" where
  "OpenAudioChannel_main net s =
     and_then
       (case mqtt s of
          Mqtt_nullptr \<Rightarrow> Inr (StartMqttClient_main net True s)
        | Mqtt_object connected \<Rightarrow>
            if connected then Inr (True, s) else Inr (StartMqttClient_main net True s)
        | Mqtt_deleted \<Rightarrow> Inl DanglingPointerUse)
       (\<lambda>(started, s1).
          if \<not> started then Inr (False, s1)
          else Inr (True,
                 emit EventGroupClearBits
                   (s1\<lparr>busy_sending_audio := False, error_occurred := False, session_id := [],
                       event_group := False\<rparr>)))"

subsection \<open>Runs of the controller\<close>

text \<open>
  What can happen to the object after its construction: the public calls, made by the
  application's task (the close a goodbye schedules is such a call), a payload handed to the
  handler by the MQTT client's task, and the loss of the connection.
\<close>

datatype step =
    Call_Start network
  | Call_OpenAudioChannel network "(int \<times> cJSON option) list"
  | Call_CloseAudioChannel network
  | Call_SendAudio "u8 list"
  | Payload_arrives int "cJSON option"
  | Connection_lost

definition connection_lost :: "BemfaProtocol \<Rightarrow> BemfaProtocol" where
  "connection_lost s =
     (case mqtt s of Mqtt_object connected \<Rightarrow> s\<lparr>mqtt := Mqtt_object False\<rparr> | _ \<Rightarrow> s)"

fun run_step :: "base_decls \<Rightarrow> step \<Rightarrow> BemfaProtocol \<Rightarrow> fault + BemfaProtocol" where
  "run_step X (Call_Start net) s = Start net s"
| "run_step X (Call_OpenAudioChannel net arriving) s =
     and_then (OpenAudioChannel X net arriving s) (\<lambda>(opened, s'). Inr s')"
| "run_step X (Call_CloseAudioChannel net) s = CloseAudioChannel net s"
| "run_step X (Call_SendAudio data) s = Inr (SendAudio data s)"
| "run_step X (Payload_arrives now parsed) s = OnMessage now parsed s"
| "run_step X Connection_lost s = Inr (connection_lost s)"

fun run :: "base_decls \<Rightarrow> step list \<Rightarrow> BemfaProtocol \<Rightarrow> fault + BemfaProtocol" where
  "run X [] s = Inr s"
| "run X (st # rest) s = and_then (run_step X st s) (run X rest)"

text \<open>The same for \<^verbatim>\<open>src/main/protocols/bemfa_protocol.cc\<close>, whose open call does not wait.\<close>

fun run_step_main :: "step \<Rightarrow> BemfaProtocol \<Rightarrow> fault + BemfaProtocol" where
  "run_step_main (Call_Start net) s = Inr (Start_main net s)"
| "run_step_main (Call_OpenAudioChannel net arriving) s =
     and_then (OpenAudioChannel_main net s) (\<lambda>(opened, s'). Inr s')"
| "run_step_main (Call_CloseAudioChannel net) s = CloseAudioChannel_main net s"
| "run_step_main (Call_SendAudio data) s = Inr (SendAudio data s)"
| "run_step_main (Payload_arrives now parsed) s = OnMessage_main now parsed s"
| "run_step_main Connection_lost s = Inr (connection_lost s)"

fun run_main :: "step list \<Rightarrow> BemfaProtocol \<Rightarrow> fault + BemfaProtocol" where
  "run_main [] s = Inr s"
| "run_main (st # rest) s = and_then (run_step_main st s) (run_main rest)"

subsection \<open>Names for the proofs\<close>

text \<open>
  The stages of \<^verbatim>\<open>OpenAudioChannel\<close>, named so that the proofs can take the function apart
  (\<open>OpenAudioChannel_stages\<close> below shows that they compose to it): the connectivity check
  with its reconnect, the resets with the clearing of the event bit, the text of the hello
  request, and what follows the return of \<^verbatim>\<open>xEventGroupWaitBits\<close>.
\<close>

definition ensure_signaling :: "network \<Rightarrow> BemfaProtocol \<Rightarrow> fault + (bool \<times> BemfaProtocol)" where
  "ensure_signaling net s =
     (case mqtt s of
        Mqtt_nullptr \<Rightarrow> StartMqttClient net True s
      | Mqtt_object connected \<Rightarrow> if connected then Inr (True, s) else StartMqttClient net True s
      | Mqtt_deleted \<Rightarrow> Inl DanglingPointerUse)"

definition reset_for_open :: "BemfaProtocol \<Rightarrow> BemfaProtocol" where
  "reset_for_open s1 =
     emit EventGroupClearBits
       (s1\<lparr>busy_sending_audio := False, error_occurred := False, session_id := [],
           event_group := False\<rparr>)"

definition hello_request :: "int \<Rightarrow> string" where
  \<open>hello_request frame_duration =
     ''{"type":"hello","version": 3,"transport":"udp","audio_params":{"format":"opus", "sample_rate":16000, "channels":1, "frame_duration":''
       @ to_string frame_duration @ ''}}''\<close>

definition after_wait :: "base_decls \<Rightarrow> BemfaProtocol \<Rightarrow> bool \<times> BemfaProtocol" where
  "after_wait X s4 =
     (if \<not> event_group s4 then (False, call_SetError X (SERVER_TIMEOUT X) s4)
      else (True, s4\<lparr>event_group := False\<rparr>))"

text \<open>
  The stages of \<^verbatim>\<open>ParseServerHello\<close> after the transport check, named in the same way
  (\<open>ParseServerHello_stages\<close> below): the session id, the audio parameters, and the reading
  of the \<^verbatim>\<open>udp\<close> object.
\<close>

definition read_session_id :: "cJSON \<Rightarrow> BemfaProtocol \<Rightarrow> fault + BemfaProtocol" where
  "read_session_id root s =
     (case cJSON_GetObjectItem root ''session_id'' of
        None \<Rightarrow> Inr s
      | Some session_id_item \<Rightarrow>
          and_then (c_str (valuestring session_id_item)) (\<lambda>text. Inr (s\<lparr>session_id := text\<rparr>)))"

definition read_audio_params :: "cJSON \<Rightarrow> BemfaProtocol \<Rightarrow> BemfaProtocol" where
  "read_audio_params root s1 =
     (case cJSON_GetObjectItem root ''audio_params'' of
        None \<Rightarrow> s1
      | Some audio_params \<Rightarrow>
          (let s1a =
             (case cJSON_GetObjectItem audio_params ''sample_rate'' of
                None \<Rightarrow> s1
              | Some sample_rate \<Rightarrow> s1\<lparr>server_sample_rate := valueint sample_rate\<rparr>)
           in case cJSON_GetObjectItem audio_params ''frame_duration'' of
                None \<Rightarrow> s1a
              | Some frame_duration \<Rightarrow>
                  s1a\<lparr>server_frame_duration := valueint frame_duration\<rparr>))"

definition read_udp :: "cJSON \<Rightarrow> BemfaProtocol \<Rightarrow> fault + BemfaProtocol" where
  "read_udp udp_item s2 =
     and_then (deref (cJSON_GetObjectItem udp_item ''server'')) (\<lambda>server.
     and_then (c_str (valuestring server)) (\<lambda>server_string.
     and_then (deref (cJSON_GetObjectItem udp_item ''port'')) (\<lambda>port.
     and_then (deref (cJSON_GetObjectItem udp_item ''key'')) (\<lambda>key.
     and_then (deref (cJSON_GetObjectItem udp_item ''nonce'')) (\<lambda>nonce.
     and_then (c_str (valuestring nonce)) (\<lambda>nonce_string.
     and_then (c_str (valuestring key)) (\<lambda>key_string.
       Inr (emit EventGroupSetBits
             (s2\<lparr>udp_server := server_string,
                 udp_port := valueint port,
                 aes_nonce := DecodeHexString nonce_string,
                 aes_key := take 16 (DecodeHexString key_string),
                 local_sequence := 0,
                 remote_sequence := 0,
                 event_group := True\<rparr>)))))))))"

text \<open>The events \<^verbatim>\<open>StartMqttClient\<close> leaves when it connects.\<close>

definition connect_events :: "BemfaProtocol \<Rightarrow> event list" where
  "connect_events s =
     [MqttSetKeepAlive 90,
      MqttConnect (endpoint s) 9501 (client_id s) (username s) (password s) True,
      MqttSubscribe (publish_topic s) 1]"

text \<open>The text of the goodbye message \<^verbatim>\<open>CloseAudioChannel\<close> builds.\<close>

definition goodbye_message :: "string \<Rightarrow> string" where
  \<open>goodbye_message sid = ''{"session_id":"'' @ sid @ ''","type":"goodbye"}''\<close>

text \<open>The events a call has added to the trace.\<close>

definition events_since :: "BemfaProtocol \<Rightarrow> BemfaProtocol \<Rightarrow> event list" where
  "events_since s s' = drop (length (trace s)) (trace s')"

text \<open>
  A hello that \<^verbatim>\<open>ParseServerHello\<close> reads to its end: the transport is the string
  \<^verbatim>\<open>"udp"\<close>, a \<^verbatim>\<open>session_id\<close> is a string if there is one, and the \<^verbatim>\<open>udp\<close> object has a
  \<^verbatim>\<open>server\<close>, a \<^verbatim>\<open>key\<close> and a \<^verbatim>\<open>nonce\<close> that are strings, and a \<^verbatim>\<open>port\<close>.
\<close>

definition is_string :: "cJSON option \<Rightarrow> bool" where
  "is_string item = (case item of None \<Rightarrow> False | Some i \<Rightarrow> valuestring i \<noteq> None)"

definition udp_complete :: "cJSON \<Rightarrow> bool" where
  "udp_complete udp_item =
     (is_string (cJSON_GetObjectItem udp_item ''server'')
      \<and> cJSON_GetObjectItem udp_item ''port'' \<noteq> None
      \<and> is_string (cJSON_GetObjectItem udp_item ''key'')
      \<and> is_string (cJSON_GetObjectItem udp_item ''nonce''))"

definition hello_complete :: "cJSON \<Rightarrow> bool" where
  "hello_complete root =
     ((case cJSON_GetObjectItem root ''transport'' of
         None \<Rightarrow> False
       | Some transport \<Rightarrow> valuestring transport = Some ''udp'')
      \<and> (cJSON_GetObjectItem root ''session_id'' = None
           \<or> is_string (cJSON_GetObjectItem root ''session_id''))
      \<and> (case cJSON_GetObjectItem root ''udp'' of
            None \<Rightarrow> False
          | Some udp_item \<Rightarrow> udp_complete udp_item))"

text \<open>
  A hello as the claim about the successful parse describes it: the transport is the string
  \<^verbatim>\<open>"udp"\<close> and there is a \<^verbatim>\<open>udp\<close> object. (When the parse returns on such a hello, the object
  had its four members.)
\<close>

definition hello_for_udp :: "cJSON \<Rightarrow> bool" where
  "hello_for_udp root =
     ((case cJSON_GetObjectItem root ''transport'' of
         None \<Rightarrow> False
       | Some transport \<Rightarrow> valuestring transport = Some ''udp'')
      \<and> cJSON_GetObjectItem root ''udp'' \<noteq> None)"

text \<open>A payload that is such a hello: it parses, and its \<^verbatim>\<open>type\<close> is the string \<^verbatim>\<open>"hello"\<close>.\<close>

definition complete_hello_payload :: "cJSON option \<Rightarrow> bool" where
  "complete_hello_payload parsed =
     (case parsed of
        None \<Rightarrow> False
      | Some root \<Rightarrow>
          (case cJSON_GetObjectItem root ''type'' of
             None \<Rightarrow> False
           | Some type \<Rightarrow> valuestring type = Some ''hello'' \<and> hello_complete root))"

text \<open>A step during which the MQTT client's task handles no payload.\<close>

definition no_payload :: "step \<Rightarrow> bool" where
  "no_payload st =
     (case st of
        Payload_arrives now parsed \<Rightarrow> False
      | Call_OpenAudioChannel net arriving \<Rightarrow> arriving = []
      | _ \<Rightarrow> True)"

subsection \<open>Concrete inputs\<close>

text \<open>
  The inputs at which the theorems below are instantiated: a storage for the constructor to
  work on (the base members as the application sets them up, with a channel-closed callback
  registered; the members of \<^verbatim>\<open>BemfaProtocol\<close> hold arbitrary values), values for the missing
  declarations, answers of the network, and payloads.
\<close>

definition example_storage :: BemfaProtocol where
  "example_storage =
     \<lparr>session_id = [], busy_sending_audio = False, error_occurred = False,
      server_sample_rate = 0, server_frame_duration = 0, last_incoming_time = 0,
      on_incoming_json = False, on_audio_channel_closed = True,
      event_group = True, endpoint = [], client_id = [], private_key = [], username = [],
      password = [], publish_topic = [], mqtt = Mqtt_nullptr, udp = None, aes_key = [],
      aes_nonce = [], udp_server = [], udp_port = 0, local_sequence = 7, remote_sequence = 9,
      trace = []\<rparr>"

definition example_decls :: base_decls where
  "example_decls =
     \<lparr>SetError = (\<lambda>message p. p\<lparr>error_occurred := True\<rparr>),
      OPUS_FRAME_DURATION_MS = 60,
      SERVER_TIMEOUT = ''SERVER_TIMEOUT''\<rparr>"

definition all_succeed :: network where
  "all_succeed = \<lparr>CreateMqtt_succeeds = True, Connect_succeeds = True, Publish_succeeds = True\<rparr>"


definition publish_fails :: network where
  "publish_fails = \<lparr>CreateMqtt_succeeds = True, Connect_succeeds = True, Publish_succeeds = False\<rparr>"

definition example_hello :: cJSON where
  "example_hello =
     cJSON_Object
       [(''type'', cJSON_String ''hello''),
        (''transport'', cJSON_String ''udp''),
        (''session_id'', cJSON_String ''s1''),
        (''audio_params'',
           cJSON_Object [(''sample_rate'', cJSON_Number 24000), (''frame_duration'', cJSON_Number 60)]),
        (''udp'',
           cJSON_Object
             [(''server'', cJSON_String ''10.0.0.1''),
              (''port'', cJSON_Number 8884),
              (''key'', cJSON_String ''000102030405060708090A0B0C0D0E0F''),
              (''nonce'', cJSON_String ''0A1B2C'')])]"

definition hello_without_transport :: cJSON where
  "hello_without_transport = cJSON_Object [(''type'', cJSON_String ''hello'')]"

definition hello_without_udp_server :: cJSON where
  "hello_without_udp_server =
     cJSON_Object
       [(''type'', cJSON_String ''hello''),
        (''transport'', cJSON_String ''udp''),
        (''udp'',
           cJSON_Object
             [(''port'', cJSON_Number 8884),
              (''key'', cJSON_String ''000102030405060708090A0B0C0D0E0F''),
              (''nonce'', cJSON_String ''0A1B2C'')])]"

definition hello_without_udp :: cJSON where
  "hello_without_udp =
     cJSON_Object
       [(''type'', cJSON_String ''hello''),
        (''transport'', cJSON_String ''udp''),
        (''session_id'', cJSON_String ''s2'')]"

definition goodbye_of_other_session :: cJSON where
  "goodbye_of_other_session =
     cJSON_Object [(''type'', cJSON_String ''goodbye''), (''session_id'', cJSON_String ''s2'')]"

definition goodbye_without_session :: cJSON where
  "goodbye_without_session = cJSON_Object [(''type'', cJSON_String ''goodbye'')]"

definition goodbye_with_number_as_session :: cJSON where
  "goodbye_with_number_as_session =
     cJSON_Object [(''type'', cJSON_String ''goodbye''), (''session_id'', cJSON_Number 5)]"

definition hello_over_tcp :: cJSON where
  "hello_over_tcp =
     cJSON_Object
       [(''type'', cJSON_String ''hello''),
        (''transport'', cJSON_String ''tcp''),
        (''session_id'', cJSON_String ''s3'')]"

section \<open>Hex decoding\<close>

lemma in_range_chars:
  assumes "(of_char c :: int) \<in> of_char ` set cs"
  shows "c \<in> set cs"
  using assms by (auto simp only: of_char_eq_iff image_iff)

lemma in_range_digit:
  assumes "(of_char CHR ''0'' :: int) \<le> of_char c" and "(of_char c :: int) \<le> of_char CHR ''9''"
  shows "c \<in> set ''0123456789''"
proof -
  have "(of_char c :: int) \<in> {48, 49, 50, 51, 52, 53, 54, 55, 56, 57}"
    using assms by simp arith
  then show ?thesis
    by (intro in_range_chars) simp
qed

lemma in_range_upper:
  assumes "(of_char CHR ''A'' :: int) \<le> of_char c" and "(of_char c :: int) \<le> of_char CHR ''F''"
  shows "c \<in> set ''ABCDEF''"
proof -
  have "(of_char c :: int) \<in> {65, 66, 67, 68, 69, 70}"
    using assms by simp arith
  then show ?thesis
    by (intro in_range_chars) simp
qed

lemma in_range_lower:
  assumes "(of_char CHR ''a'' :: int) \<le> of_char c" and "(of_char c :: int) \<le> of_char CHR ''f''"
  shows "c \<in> set ''abcdef''"
proof -
  have "(of_char c :: int) \<in> {97, 98, 99, 100, 101, 102}"
    using assms by simp arith
  then show ?thesis
    by (intro in_range_chars) simp
qed

lemma CharToHex_table:
  "list_all (\<lambda>c. CharToHex c = of_nat (spec_nibble c)) ''0123456789ABCDEFabcdef''"
  by (simp add: CharToHex_def spec_nibble_def)

lemma CharToHex_other:
  assumes "c \<notin> set ''0123456789ABCDEFabcdef''"
  shows "CharToHex c = 0" and "spec_nibble c = 0"
proof -
  have "c \<notin> set ''0123456789''" and "c \<notin> set ''ABCDEF''" and "c \<notin> set ''abcdef''"
    using assms by auto
  then have
    "\<not> ((of_char CHR ''0'' :: int) \<le> of_char c \<and> (of_char c :: int) \<le> of_char CHR ''9'')"
    "\<not> ((of_char CHR ''A'' :: int) \<le> of_char c \<and> (of_char c :: int) \<le> of_char CHR ''F'')"
    "\<not> ((of_char CHR ''a'' :: int) \<le> of_char c \<and> (of_char c :: int) \<le> of_char CHR ''f'')"
    using in_range_digit in_range_upper in_range_lower by blast+
  then show "CharToHex c = 0"
    unfolding CharToHex_def Let_def by (simp only: if_False)
  show "spec_nibble c = 0"
    using assms by (auto simp add: spec_nibble_def)
qed

lemma CharToHex_spec: "CharToHex c = of_nat (spec_nibble c)"
proof (cases "c \<in> set ''0123456789ABCDEFabcdef''")
  case True
  then show ?thesis
    using CharToHex_table unfolding list_all_iff by blast
next
  case False
  then show ?thesis
    using CharToHex_other [OF False] by simp
qed

lemma spec_nibble_less: "spec_nibble c < 16"
  by (simp add: spec_nibble_def)

lemma packed_byte:
  assumes "a < 16" and "b < 16"
  shows "push_bit 4 (of_nat a :: u8) OR of_nat b = of_nat (16 * a + b)"
proof -
  have "\<forall>a\<in>set [0..<16]. \<forall>b\<in>set [0..<16].
          push_bit 4 (of_nat a :: u8) OR of_nat b = of_nat (16 * a + b)"
    by code_simp
  then show ?thesis using assms by simp
qed

lemma string_at_append_hi: "string_at (pre @ hi # rest) (length pre) = hi"
  by (simp add: string_at_def)

lemma string_at_append_lo: "string_at (pre @ hi # lo # rest) (Suc (length pre)) = lo"
  by (simp add: string_at_def nth_append)

text \<open>
  The loop invariant: standing at an even position \<open>length pre\<close> with the pairs \<open>ps\<close> still to
  read, the loop appends one packed byte per pair.
\<close>

lemma DecodeHexString_loop_pairs:
  "DecodeHexString_loop (pre @ digit_pairs ps) (length pre) decoded
     = decoded @ map spec_packed_byte ps"
proof (induction ps arbitrary: pre decoded)
  case Nil
  show ?case by (simp add: digit_pairs_def)
next
  case (Cons p ps)
  obtain hi lo where p: "p = (hi, lo)" by (cases p)
  have byte: "push_bit 4 (CharToHex hi) OR CharToHex lo = spec_packed_byte p"
    by (simp add: CharToHex_spec spec_packed_byte_def p packed_byte spec_nibble_less)
  have "DecodeHexString_loop (pre @ digit_pairs (p # ps)) (length pre) decoded
      = DecodeHexString_loop ((pre @ [hi, lo]) @ digit_pairs ps) (length (pre @ [hi, lo]))
          (decoded @ [spec_packed_byte p])"
    apply (subst DecodeHexString_loop.simps)
    apply (simp add: digit_pairs_def p string_at_append_hi string_at_append_lo byte [unfolded p]
        del: DecodeHexString_loop.simps)
    done
  also have "\<dots> = (decoded @ [spec_packed_byte p]) @ map spec_packed_byte ps"
    by (rule Cons.IH)
  finally show ?case by simp
qed

text \<open>
  C9. \<^verbatim>\<open>DecodeHexString\<close> maps every string of digit pairs to its packed bytes, one byte per
  pair with the first digit in the high nibble, where a hex digit (either case) has its value
  and any other character the nibble value 0; no input raises an error (the function is total
  and returns bytes). \<^verbatim>\<open>DecodeHexString("0A1B2C")\<close> is \<open>{0x0A, 0x1B, 0x2C}\<close>,
  \<^verbatim>\<open>DecodeHexString("")\<close> is empty, and the malformed digit \<open>G\<close> of \<^verbatim>\<open>"G1"\<close> counts as 0.
\<close>

theorem DecodeHexString_packs_digit_pairs:
  "DecodeHexString (digit_pairs ps) = map spec_packed_byte ps
   \<and> DecodeHexString ''0A1B2C'' = [0x0A, 0x1B, 0x2C]
   \<and> DecodeHexString [] = []
   \<and> DecodeHexString ''G1'' = [0x01]"
proof -
  have "DecodeHexString (digit_pairs ps) = map spec_packed_byte ps"
    using DecodeHexString_loop_pairs [of "[]" ps "[]"] by (simp add: DecodeHexString_def)
  moreover have "DecodeHexString ''0A1B2C'' = [0x0A, 0x1B, 0x2C]"
    by (simp add: DecodeHexString_def CharToHex_def string_at_def)
  moreover have "DecodeHexString [] = []"
    by (simp add: DecodeHexString_def)
  moreover have "DecodeHexString ''G1'' = [0x01]"
    by (simp add: DecodeHexString_def CharToHex_def string_at_def)
  ultimately show ?thesis by simp
qed

section \<open>Results, events and frames\<close>

lemma and_then_simps [simp]:
  "and_then (Inr x) f = f x"
  "and_then (Inl e) f = Inl e"
  by (simp_all add: and_then_def)

lemma and_then_eq_Inr:
  "and_then r f = Inr y \<longleftrightarrow> (\<exists>x. r = Inr x \<and> f x = Inr y)"
  by (cases r) simp_all

lemma emit_simps [simp]:
  "trace (emit e s) = trace s @ [e]"
  "udp (emit e s) = udp s"
  "mqtt (emit e s) = mqtt s"
  "event_group (emit e s) = event_group s"
  "publish_topic (emit e s) = publish_topic s"
  "endpoint (emit e s) = endpoint s"
  "session_id (emit e s) = session_id s"
  "error_occurred (emit e s) = error_occurred s"
  "busy_sending_audio (emit e s) = busy_sending_audio s"
  "last_incoming_time (emit e s) = last_incoming_time s"
  "on_audio_channel_closed (emit e s) = on_audio_channel_closed s"
  "local_sequence (emit e s) = local_sequence s"
  "remote_sequence (emit e s) = remote_sequence s"
  by (simp_all add: emit_def)

lemma call_SetError_simps [simp]:
  "trace (call_SetError X m s) = trace s @ [SetErrorCalled m]"
  "udp (call_SetError X m s) = udp s"
  "mqtt (call_SetError X m s) = mqtt s"
  "event_group (call_SetError X m s) = event_group s"
  "publish_topic (call_SetError X m s) = publish_topic s"
  "endpoint (call_SetError X m s) = endpoint s"
  by (cases s; simp add: call_SetError_def emit_def Protocol.defs)+

lemma events_since_append [simp]: "trace s' = trace s @ evs \<Longrightarrow> events_since s s' = evs"
  by (simp add: events_since_def)

lemma events_since_self [simp]: "events_since s s = []"
  by (simp add: events_since_def)

section \<open>\<open>StartMqttClient\<close> and \<open>SendText\<close>\<close>

text \<open>Every way \<open>StartMqttClient\<close> returns.\<close>

lemma StartMqttClient_outcomes:
  assumes "StartMqttClient net report s = Inr (started, s')"
  shows "udp s' = udp s \<and> event_group s' = event_group s \<and> publish_topic s' = publish_topic s
       \<and> endpoint s' = endpoint s
       \<and> (if started then mqtt s' = Mqtt_object True \<and> trace s' = trace s @ connect_events s
           else mqtt s' \<noteq> Mqtt_object True
                \<and> (\<exists>evs. trace s' = trace s @ evs \<and> EventGroupSetBits \<notin> set evs \<and> EventGroupWaitBits 10000 \<notin> set evs
                      \<and> (\<forall>t x ok. MqttPublish t x ok \<notin> set evs)))"
  using assms
  by (auto simp: StartMqttClient_def Let_def connect_events_def emit_def split: mqtt_ptr.splits if_splits)


lemma ensure_signaling_outcomes:
  assumes "ensure_signaling net s = Inr (started, s1)"
  shows "udp s1 = udp s \<and> event_group s1 = event_group s \<and> publish_topic s1 = publish_topic s
       \<and> endpoint s1 = endpoint s
       \<and> (if started
           then mqtt s1 = Mqtt_object True
                \<and> trace s1 = trace s @ (if mqtt s = Mqtt_object True then [] else connect_events s)
           else mqtt s1 \<noteq> Mqtt_object True
                \<and> (\<exists>evs. trace s1 = trace s @ evs \<and> EventGroupSetBits \<notin> set evs \<and> EventGroupWaitBits 10000 \<notin> set evs
                      \<and> (\<forall>t x ok. MqttPublish t x ok \<notin> set evs)))"
proof (cases "mqtt s = Mqtt_object True")
  case True
  then show ?thesis using assms by (auto simp: ensure_signaling_def)
next
  case False
  then have "StartMqttClient net True s = Inr (started, s1)"
    using assms by (auto simp: ensure_signaling_def split: mqtt_ptr.splits if_splits)
  from StartMqttClient_outcomes [OF this] False show ?thesis by simp
qed

lemma SendText_outcomes:
  assumes "SendText net text s = Inr (sent, s')"
  shows "(sent \<and> Publish_succeeds net \<and> s' = emit (MqttPublish (publish_topic s @ ''/set'') text True) s)
       \<or> (\<not> sent \<and> (s' = s \<or> (\<not> Publish_succeeds net \<and> s' = emit (MqttPublish (publish_topic s @ ''/set'') text False) s)))"
  using assms by (auto simp: SendText_def split: mqtt_ptr.splits if_splits)


lemma SendText_main_object:
  assumes "mqtt s = Mqtt_object connected" and "publish_topic s \<noteq> []"
  shows "SendText_main net text s =
           Inr (Publish_succeeds net,
                emit (MqttPublish (publish_topic s) text (Publish_succeeds net)) s)"
  using assms by (simp add: SendText_main_def)

lemma SendText_none:
  assumes "mqtt s = Mqtt_nullptr \<or> (mqtt s \<noteq> Mqtt_deleted \<and> publish_topic s = [])"
  shows "SendText net text s = Inr (False, s)" and "SendText_main net text s = Inr (False, s)"
  using assms by (auto simp: SendText_def SendText_main_def split: mqtt_ptr.splits)

section \<open>\<open>OpenAudioChannel\<close> in stages\<close>

lemma OpenAudioChannel_stages:
  "OpenAudioChannel X net arriving s =
     and_then (ensure_signaling net s)
       (\<lambda>(started, s1).
          if \<not> started then Inr (False, s1)
          else and_then (SendText net (hello_request (OPUS_FRAME_DURATION_MS X)) (reset_for_open s1))
                 (\<lambda>(sent, s3).
                    if \<not> sent then Inr (False, s3)
                    else and_then (deliver arriving (emit (EventGroupWaitBits 10000) s3))
                           (\<lambda>s4. Inr (after_wait X s4))))"
  unfolding OpenAudioChannel_def ensure_signaling_def reset_for_open_def hello_request_def
    after_wait_def Let_def
  by (simp add: if_distrib cong: if_cong)

lemma OpenAudioChannel_outcomes:
  assumes "OpenAudioChannel X net arriving s = Inr (r, s')"
  obtains (not_started) "ensure_signaling net s = Inr (False, s')" and "\<not> r"
  | (not_sent) s1 where "ensure_signaling net s = Inr (True, s1)"
      and "SendText net (hello_request (OPUS_FRAME_DURATION_MS X)) (reset_for_open s1) = Inr (False, s')"
      and "\<not> r"
  | (waited) s1 s3 s4 where "ensure_signaling net s = Inr (True, s1)"
      and "SendText net (hello_request (OPUS_FRAME_DURATION_MS X)) (reset_for_open s1) = Inr (True, s3)"
      and "deliver arriving (emit (EventGroupWaitBits 10000) s3) = Inr s4"
      and "(r, s') = after_wait X s4"
proof -
  from assms obtain started s1 where 1: "ensure_signaling net s = Inr (started, s1)"
    and 2: "(if \<not> started then Inr (False, s1)
          else and_then (SendText net (hello_request (OPUS_FRAME_DURATION_MS X)) (reset_for_open s1))
                 (\<lambda>(sent, s3).
                    if \<not> sent then Inr (False, s3)
                    else and_then (deliver arriving (emit (EventGroupWaitBits 10000) s3))
                           (\<lambda>s4. Inr (after_wait X s4)))) = Inr (r, s')"
    unfolding OpenAudioChannel_stages and_then_eq_Inr by auto
  show thesis
  proof (cases started)
    case False
    with 1 2 show thesis by (auto intro: not_started)
  next
    case True
    with 2 obtain sent s3 where 3: "SendText net (hello_request (OPUS_FRAME_DURATION_MS X)) (reset_for_open s1) = Inr (sent, s3)"
      and 4: "(if \<not> sent then Inr (False, s3)
                    else and_then (deliver arriving (emit (EventGroupWaitBits 10000) s3))
                           (\<lambda>s4. Inr (after_wait X s4))) = Inr (r, s')"
      by (auto simp: and_then_eq_Inr)
    show thesis
    proof (cases sent)
      case False
      with 1 3 4 True show thesis by (auto intro: not_sent)
    next
      case sent: True
      with 4 obtain s4 where "deliver arriving (emit (EventGroupWaitBits 10000) s3) = Inr s4"
        and "(r, s') = after_wait X s4"
        by (auto simp: and_then_eq_Inr)
      with 1 3 True sent show thesis by (auto intro: waited)
    qed
  qed
qed

section \<open>\<open>ParseServerHello\<close> and the handler\<close>

lemma ParseServerHello_stages:
  "ParseServerHello root s =
     (case cJSON_GetObjectItem root ''transport'' of
        None \<Rightarrow> Inl NullPointerDereference
      | Some transport \<Rightarrow>
          and_then (c_str (valuestring transport)) (\<lambda>transport_string.
          if transport_string \<noteq> ''udp'' then Inr s
          else and_then (read_session_id root s) (\<lambda>s1.
                 case cJSON_GetObjectItem root ''udp'' of
                   None \<Rightarrow> Inr (read_audio_params root s1)
                 | Some udp_item \<Rightarrow> read_udp udp_item (read_audio_params root s1))))"
  unfolding ParseServerHello_def read_session_id_def read_audio_params_def read_udp_def Let_def
  by (rule refl)

lemma read_session_id_returns:
  assumes "read_session_id root s = Inr s1"
  shows "(cJSON_GetObjectItem root ''session_id'' = None \<or> is_string (cJSON_GetObjectItem root ''session_id''))
       \<and> udp s1 = udp s \<and> mqtt s1 = mqtt s \<and> publish_topic s1 = publish_topic s
       \<and> endpoint s1 = endpoint s \<and> trace s1 = trace s \<and> event_group s1 = event_group s"
  using assms
  by (auto simp: read_session_id_def is_string_def c_str_def and_then_eq_Inr split: option.splits)

lemma read_session_id_total:
  assumes "cJSON_GetObjectItem root ''session_id'' = None \<or> is_string (cJSON_GetObjectItem root ''session_id'')"
  shows "\<exists>s1. read_session_id root s = Inr s1"
  using assms
  by (auto simp: read_session_id_def is_string_def c_str_def split: option.splits)

lemma read_audio_params_frame [simp]:
  "udp (read_audio_params root s) = udp s"
  "mqtt (read_audio_params root s) = mqtt s"
  "publish_topic (read_audio_params root s) = publish_topic s"
  "endpoint (read_audio_params root s) = endpoint s"
  "trace (read_audio_params root s) = trace s"
  "event_group (read_audio_params root s) = event_group s"
  by (simp_all add: read_audio_params_def Let_def split: option.splits)

lemma read_udp_returns:
  assumes "read_udp udp_item s2 = Inr s'"
  shows "udp_complete udp_item
       \<and> udp s' = udp s2 \<and> mqtt s' = mqtt s2 \<and> publish_topic s' = publish_topic s2
       \<and> endpoint s' = endpoint s2 \<and> trace s' = trace s2 @ [EventGroupSetBits] \<and> event_group s'
       \<and> local_sequence s' = 0 \<and> remote_sequence s' = 0"
  using assms
  by (auto simp: read_udp_def udp_complete_def is_string_def deref_def c_str_def and_then_eq_Inr
        emit_def split: option.splits)

lemma read_udp_total:
  assumes "udp_complete udp_item"
  shows "\<exists>s'. read_udp udp_item s2 = Inr s'"
  using assms
  by (auto simp: read_udp_def udp_complete_def is_string_def deref_def c_str_def split: option.splits)

lemma ParseServerHello_complete:
  assumes "hello_complete root"
  shows "\<exists>s'. ParseServerHello root s = Inr s' \<and> local_sequence s' = 0 \<and> remote_sequence s' = 0
           \<and> event_group s' \<and> trace s' = trace s @ [EventGroupSetBits]"
proof -
  from assms obtain transport udp_item where
    tr: "cJSON_GetObjectItem root ''transport'' = Some transport" "valuestring transport = Some ''udp''"
    and sid: "cJSON_GetObjectItem root ''session_id'' = None \<or> is_string (cJSON_GetObjectItem root ''session_id'')"
    and u: "cJSON_GetObjectItem root ''udp'' = Some udp_item" "udp_complete udp_item"
    by (auto simp: hello_complete_def split: option.splits)
  from read_session_id_total [OF sid] obtain s1 where s1: "read_session_id root s = Inr s1" ..
  from read_udp_total [OF u(2)] obtain s' where s': "read_udp udp_item (read_audio_params root s1) = Inr s'" ..
  have "ParseServerHello root s = Inr s'"
    by (simp add: ParseServerHello_stages tr u s1 s' c_str_def)
  with read_udp_returns [OF s'] read_session_id_returns [OF s1] show ?thesis by simp
qed

lemma ParseServerHello_returns:
  assumes "ParseServerHello root s = Inr s'"
  shows "udp s' = udp s \<and> mqtt s' = mqtt s \<and> publish_topic s' = publish_topic s
       \<and> endpoint s' = endpoint s
       \<and> (hello_complete root \<longleftrightarrow> hello_for_udp root)
       \<and> (if hello_complete root
           then trace s' = trace s @ [EventGroupSetBits] \<and> event_group s'
                \<and> local_sequence s' = 0 \<and> remote_sequence s' = 0
           else trace s' = trace s \<and> event_group s' = event_group s)"
proof -
  from assms obtain transport transport_string where
    tr: "cJSON_GetObjectItem root ''transport'' = Some transport" "valuestring transport = Some transport_string"
    by (auto simp: ParseServerHello_stages c_str_def split: option.splits)
  show ?thesis
  proof (cases "transport_string = ''udp''")
    case False
    with assms tr have "s' = s" and "\<not> hello_complete root" and "\<not> hello_for_udp root"
      by (auto simp: ParseServerHello_stages c_str_def hello_complete_def hello_for_udp_def)
    then show ?thesis by simp
  next
    case True
    with assms tr obtain s1 where s1: "read_session_id root s = Inr s1"
      and rest: "(case cJSON_GetObjectItem root ''udp'' of
                   None \<Rightarrow> Inr (read_audio_params root s1)
                 | Some udp_item \<Rightarrow> read_udp udp_item (read_audio_params root s1)) = Inr s'"
      by (auto simp: ParseServerHello_stages c_str_def and_then_eq_Inr)
    note f1 = read_session_id_returns [OF s1]
    show ?thesis
    proof (cases "cJSON_GetObjectItem root ''udp''")
      case None
      with rest have "s' = read_audio_params root s1" by simp
      moreover have "\<not> hello_complete root" and "\<not> hello_for_udp root"
        using None by (simp_all add: hello_complete_def hello_for_udp_def)
      ultimately show ?thesis using f1 by simp
    next
      case (Some udp_item)
      with rest have r: "read_udp udp_item (read_audio_params root s1) = Inr s'" by simp
      note f2 = read_udp_returns [OF r]
      have "hello_complete root" and "hello_for_udp root"
        using tr True Some f1 f2 by (simp_all add: hello_complete_def hello_for_udp_def)
      then show ?thesis using f1 f2 by simp
    qed
  qed
qed

text \<open>Every way the handler returns.\<close>

lemma OnMessage_returns:
  assumes "OnMessage now parsed s = Inr s'"
  shows "udp s' = udp s \<and> mqtt s' = mqtt s \<and> publish_topic s' = publish_topic s
       \<and> endpoint s' = endpoint s
       \<and> (\<exists>evs. trace s' = trace s @ evs
              \<and> count_list evs EventGroupSetBits = (if complete_hello_payload parsed then 1 else 0)
              \<and> (event_group s' \<longleftrightarrow> event_group s \<or> EventGroupSetBits \<in> set evs)
              \<and> EventGroupWaitBits 10000 \<notin> set evs
              \<and> (\<forall>t x ok. MqttPublish t x ok \<notin> set evs))"
proof (cases parsed)
  case None
  with assms have "s' = s" by (simp add: OnMessage_def)
  then show ?thesis using None by (simp add: complete_hello_payload_def)
next
  case (Some root)
  show ?thesis
  proof (cases "cJSON_GetObjectItem root ''type''")
    case None
    with assms Some have "s' = s" by (simp add: OnMessage_def)
    then show ?thesis using None Some by (simp add: complete_hello_payload_def)
  next
    case (Some type)
    with assms \<open>parsed = Some root\<close> have
      "and_then (c_str (valuestring type)) (\<lambda>type_string.
         and_then
           (if type_string = ''hello'' then ParseServerHello root s
            else if type_string = ''goodbye'' then
              (case cJSON_GetObjectItem root ''session_id'' of
                 None \<Rightarrow> Inr (emit ScheduleCloseAudioChannel s)
               | Some session_id_item \<Rightarrow>
                   and_then (c_str (valuestring session_id_item)) (\<lambda>text.
                     Inr (if session_id s = text then emit ScheduleCloseAudioChannel s else s)))
            else if on_incoming_json s then Inr (emit (OnIncomingJson root) s)
            else Inr s)
           (\<lambda>s'. Inr (s'\<lparr>last_incoming_time := now\<rparr>))) = Inr s'"
      unfolding OnMessage_def by (simp only: option.case)
    then obtain type_string s1 where
      ty0: "c_str (valuestring type) = Inr type_string"
      and body: "(if type_string = ''hello'' then ParseServerHello root s
                  else if type_string = ''goodbye'' then
                    (case cJSON_GetObjectItem root ''session_id'' of
                       None \<Rightarrow> Inr (emit ScheduleCloseAudioChannel s)
                     | Some session_id_item \<Rightarrow>
                         and_then (c_str (valuestring session_id_item)) (\<lambda>text.
                           Inr (if session_id s = text then emit ScheduleCloseAudioChannel s else s)))
                  else if on_incoming_json s then Inr (emit (OnIncomingJson root) s)
                  else Inr s) = Inr s1"
      and fin0: "Inr (s1\<lparr>last_incoming_time := now\<rparr>) = (Inr s' :: fault + BemfaProtocol)"
      unfolding and_then_eq_Inr by blast
    from fin0 have fin: "s' = s1\<lparr>last_incoming_time := now\<rparr>" by simp
    from ty0 have ty: "valuestring type = Some type_string"
      by (simp add: c_str_def split: option.splits)
    have payload: "complete_hello_payload parsed \<longleftrightarrow> type_string = ''hello'' \<and> hello_complete root"
      using \<open>parsed = Some root\<close> Some ty by (simp add: complete_hello_payload_def)
    show ?thesis
    proof (cases "type_string = ''hello''")
      case True
      with body have "ParseServerHello root s = Inr s1" by simp
      from ParseServerHello_returns [OF this] fin payload True show ?thesis
        by (cases "hello_complete root") simp_all
    next
      case False
      with body have "s1 = s \<or> s1 = emit ScheduleCloseAudioChannel s \<or> s1 = emit (OnIncomingJson root) s"
        by (auto simp: c_str_def and_then_eq_Inr split: if_splits option.splits)
      with fin payload False show ?thesis by auto
    qed
  qed
qed

lemma deliver_returns:
  assumes "deliver arriving s = Inr s'"
  shows "udp s' = udp s \<and> mqtt s' = mqtt s \<and> publish_topic s' = publish_topic s
       \<and> endpoint s' = endpoint s
       \<and> (\<exists>evs. trace s' = trace s @ evs
              \<and> count_list evs EventGroupSetBits = length (filter complete_hello_payload (map snd arriving))
              \<and> (event_group s' \<longleftrightarrow> event_group s \<or> EventGroupSetBits \<in> set evs)
              \<and> EventGroupWaitBits 10000 \<notin> set evs
              \<and> (\<forall>t x ok. MqttPublish t x ok \<notin> set evs))"
  using assms
proof (induction arriving arbitrary: s)
  case Nil
  then show ?case by simp
next
  case (Cons a arriving)
  obtain now parsed where a: "a = (now, parsed)" by (cases a)
  from Cons.prems obtain s1 where 1: "OnMessage now parsed s = Inr s1" and 2: "deliver arriving s1 = Inr s'"
    by (auto simp: a and_then_eq_Inr)
  from OnMessage_returns [OF 1] obtain evs1 where
    f1: "udp s1 = udp s" "mqtt s1 = mqtt s" "publish_topic s1 = publish_topic s" "endpoint s1 = endpoint s"
      "trace s1 = trace s @ evs1"
      "count_list evs1 EventGroupSetBits = (if complete_hello_payload parsed then 1 else 0)"
      "event_group s1 \<longleftrightarrow> event_group s \<or> EventGroupSetBits \<in> set evs1"
      "EventGroupWaitBits 10000 \<notin> set evs1" "\<forall>t x ok. MqttPublish t x ok \<notin> set evs1"
    by blast
  from Cons.IH [OF 2] obtain evs2 where
    f2: "udp s' = udp s1" "mqtt s' = mqtt s1" "publish_topic s' = publish_topic s1" "endpoint s' = endpoint s1"
      "trace s' = trace s1 @ evs2"
      "count_list evs2 EventGroupSetBits = length (filter complete_hello_payload (map snd arriving))"
      "event_group s' \<longleftrightarrow> event_group s1 \<or> EventGroupSetBits \<in> set evs2"
      "EventGroupWaitBits 10000 \<notin> set evs2" "\<forall>t x ok. MqttPublish t x ok \<notin> set evs2"
    by blast
  have "trace s' = trace s @ (evs1 @ evs2)"
    using f1 f2 by simp
  moreover have "count_list (evs1 @ evs2) EventGroupSetBits
      = length (filter complete_hello_payload (map snd (a # arriving)))"
    using f1 f2 by (simp add: a)
  moreover have "event_group s' \<longleftrightarrow> event_group s \<or> EventGroupSetBits \<in> set (evs1 @ evs2)"
    using f1 f2 by auto
  moreover have "EventGroupWaitBits 10000 \<notin> set (evs1 @ evs2)"
    and "\<forall>t x ok. MqttPublish t x ok \<notin> set (evs1 @ evs2)"
    using f1 f2 by auto
  ultimately show ?case using f1 f2 by (intro conjI exI [of _ "evs1 @ evs2"]) simp_all
qed

section \<open>Opening the channel\<close>

lemma reset_for_open_simps [simp]:
  "trace (reset_for_open s) = trace s @ [EventGroupClearBits]"
  "udp (reset_for_open s) = udp s"
  "mqtt (reset_for_open s) = mqtt s"
  "publish_topic (reset_for_open s) = publish_topic s"
  "endpoint (reset_for_open s) = endpoint s"
  "event_group (reset_for_open s) = False"
  "busy_sending_audio (reset_for_open s) = False"
  "error_occurred (reset_for_open s) = False"
  "session_id (reset_for_open s) = []"
  by (simp_all add: reset_for_open_def emit_def)

lemma after_wait_simps:
  "fst (after_wait X s4) = event_group s4"
  "trace (snd (after_wait X s4))
     = trace s4 @ (if event_group s4 then [] else [SetErrorCalled (SERVER_TIMEOUT X)])"
  "udp (snd (after_wait X s4)) = udp s4"
  by (simp_all add: after_wait_def)


text \<open>What the call has done by the time it returns, whichever way it returns.\<close>

lemma OpenAudioChannel_returns:
  assumes "OpenAudioChannel X net arriving s = Inr (r, s')"
  shows "udp s' = udp s
       \<and> (\<exists>evs. trace s' = trace s @ evs
              \<and> (arriving = [] \<longrightarrow> EventGroupSetBits \<notin> set evs)
              \<and> (EventGroupSetBits \<notin> set evs \<longrightarrow>
                    \<not> r \<and> (EventGroupWaitBits 10000 \<in> set evs \<longrightarrow>
                              last evs = SetErrorCalled (SERVER_TIMEOUT X))))"
  using assms
proof (cases rule: OpenAudioChannel_outcomes)
  case not_started
  from ensure_signaling_outcomes [OF not_started(1)] not_started(2) show ?thesis
    by auto
next
  case (not_sent s1)
  from ensure_signaling_outcomes [OF not_sent(1)]
  have 1: "udp s1 = udp s" "trace s1 = trace s @ (if mqtt s = Mqtt_object True then [] else connect_events s)"
    by simp_all
  from SendText_outcomes [OF not_sent(2)]
  have "s' = reset_for_open s1
      \<or> s' = emit (MqttPublish (publish_topic (reset_for_open s1) @ ''/set'')
                  (hello_request (OPUS_FRAME_DURATION_MS X)) False) (reset_for_open s1)"
    by auto
  then show ?thesis using 1 not_sent(3)
    by (auto simp: connect_events_def)
next
  case (waited s1 s3 s4)
  from ensure_signaling_outcomes [OF waited(1)]
  have 1: "udp s1 = udp s" "trace s1 = trace s @ (if mqtt s = Mqtt_object True then [] else connect_events s)"
    by simp_all
  from SendText_outcomes [OF waited(2)]
  have 3: "s3 = emit (MqttPublish (publish_topic (reset_for_open s1) @ ''/set'')
                  (hello_request (OPUS_FRAME_DURATION_MS X)) True) (reset_for_open s1)"
    by auto
  from deliver_returns [OF waited(3)] obtain evs where
    4: "udp s4 = udp s3" "trace s4 = trace s3 @ [EventGroupWaitBits 10000] @ evs"
      "count_list evs EventGroupSetBits = length (filter complete_hello_payload (map snd arriving))"
      "event_group s4 \<longleftrightarrow> event_group s3 \<or> EventGroupSetBits \<in> set evs"
    by auto
  have r: "r = event_group s4"
    using after_wait_simps(1) [of X s4] waited(4) [symmetric] by simp
  have s': "s' = snd (after_wait X s4)"
    using waited(4) [symmetric] by simp
  let ?pre = "(if mqtt s = Mqtt_object True then [] else connect_events s)
        @ [EventGroupClearBits,
           MqttPublish (publish_topic (reset_for_open s1) @ ''/set'')
             (hello_request (OPUS_FRAME_DURATION_MS X)) True,
           EventGroupWaitBits 10000]"
  let ?post = "if event_group s4 then [] else [SetErrorCalled (SERVER_TIMEOUT X)]"
  have tr: "trace s' = trace s @ (?pre @ evs @ ?post)"
    using 1 3 4 s' by (simp add: after_wait_simps)
  have eg: "event_group s4 \<longleftrightarrow> EventGroupSetBits \<in> set evs"
    using 4 3 by simp
  have nopre: "EventGroupSetBits \<notin> set ?pre"
    by (simp add: connect_events_def)
  have empty: "arriving = [] \<longrightarrow> EventGroupSetBits \<notin> set evs"
    using 4(3) by (auto simp: count_list_0_iff [symmetric])
  have "udp s' = udp s"
    using 1 3 4 s' by (simp add: after_wait_simps)
  moreover have "arriving = [] \<longrightarrow> EventGroupSetBits \<notin> set (?pre @ evs @ ?post)"
    using empty nopre by auto
  moreover have "EventGroupSetBits \<notin> set (?pre @ evs @ ?post) \<longrightarrow>
       \<not> r \<and> (EventGroupWaitBits 10000 \<in> set (?pre @ evs @ ?post) \<longrightarrow>
               last (?pre @ evs @ ?post) = SetErrorCalled (SERVER_TIMEOUT X))"
    using eg r by auto
  ultimately show ?thesis using tr by blast
qed


section \<open>The other version's functions\<close>

lemma StartMqttClient_main_outcomes:
  assumes "StartMqttClient_main net report s = (started, s')"
  shows "udp s' = udp s \<and> event_group s' = event_group s \<and> publish_topic s' = publish_topic s
       \<and> endpoint s' = endpoint s
       \<and> (if started then mqtt s' = Mqtt_object True \<and> trace s' = trace s @ connect_events s
           else mqtt s' \<noteq> Mqtt_object True
                \<and> (\<exists>evs. trace s' = trace s @ evs \<and> EventGroupSetBits \<notin> set evs \<and> EventGroupWaitBits 10000 \<notin> set evs
                      \<and> (\<forall>t x ok. MqttPublish t x ok \<notin> set evs)))"
  using assms
  by (auto simp: StartMqttClient_main_def Let_def connect_events_def emit_def split: if_splits)

lemma OpenAudioChannel_main_stages:
  "OpenAudioChannel_main net s =
     and_then
       (case mqtt s of
          Mqtt_nullptr \<Rightarrow> Inr (StartMqttClient_main net True s)
        | Mqtt_object connected \<Rightarrow>
            if connected then Inr (True, s) else Inr (StartMqttClient_main net True s)
        | Mqtt_deleted \<Rightarrow> Inl DanglingPointerUse)
       (\<lambda>(started, s1). if \<not> started then Inr (False, s1) else Inr (True, reset_for_open s1))"
  unfolding OpenAudioChannel_main_def reset_for_open_def by (rule refl)

lemma OpenAudioChannel_main_returns:
  assumes "OpenAudioChannel_main net s = Inr (r, s')"
  shows "udp s' = udp s
       \<and> (\<exists>evs. trace s' = trace s @ evs \<and> EventGroupSetBits \<notin> set evs
              \<and> EventGroupWaitBits 10000 \<notin> set evs \<and> (\<forall>t x ok. MqttPublish t x ok \<notin> set evs))"
proof -
  from assms obtain started s1 where
    1: "(case mqtt s of
          Mqtt_nullptr \<Rightarrow> Inr (StartMqttClient_main net True s)
        | Mqtt_object connected \<Rightarrow>
            if connected then Inr (True, s) else Inr (StartMqttClient_main net True s)
        | Mqtt_deleted \<Rightarrow> Inl DanglingPointerUse) = Inr (started, s1)"
    and 2: "(if \<not> started then Inr (False, s1) else Inr (True, reset_for_open s1))
              = (Inr (r, s') :: fault + bool \<times> BemfaProtocol)"
    unfolding OpenAudioChannel_main_stages and_then_eq_Inr by auto
  from 1 have "(started, s1) = (True, s) \<or> StartMqttClient_main net True s = (started, s1)"
    by (auto split: mqtt_ptr.splits if_splits)
  then have "udp s1 = udp s
       \<and> (\<exists>evs. trace s1 = trace s @ evs \<and> EventGroupSetBits \<notin> set evs
              \<and> EventGroupWaitBits 10000 \<notin> set evs \<and> (\<forall>t x ok. MqttPublish t x ok \<notin> set evs))"
  proof
    assume "(started, s1) = (True, s)"
    then show ?thesis by simp
  next
    assume "StartMqttClient_main net True s = (started, s1)"
    from StartMqttClient_main_outcomes [OF this] show ?thesis
      by (cases started) (auto simp: connect_events_def)
  qed
  moreover from 2 have "s' = s1 \<or> s' = reset_for_open s1"
    by (auto split: if_splits)
  ultimately show ?thesis by auto
qed


lemma OnMessage_main_udp:
  assumes "OnMessage_main now parsed s = Inr s'"
  shows "udp s' = udp s"
  using assms
  by (auto simp: OnMessage_main_def c_str_def and_then_eq_Inr emit_def split: option.splits if_splits)

section \<open>Closing the channel\<close>

lemma CloseAudioChannel_valid:
  assumes "mqtt s \<noteq> Mqtt_deleted"
  shows "\<exists>s1. CloseAudioChannel net s = Inr s1 \<and> udp s1 = None
           \<and> trace s1 = trace s @ [ChannelMutexLock] @ (if udp s \<noteq> None then [DeleteUdp] else [])
                 @ [ChannelMutexUnlock]
                 @ (if mqtt s = Mqtt_nullptr \<or> publish_topic s = [] then []
                    else [MqttPublish (publish_topic s @ ''/set'') (goodbye_message (session_id s))
                            (Publish_succeeds net)])
                 @ (if on_audio_channel_closed s then [OnAudioChannelClosed] else [])
           \<and> s1\<lparr>trace := []\<rparr> = s\<lparr>udp := None, trace := []\<rparr>"
  using assms
  by (cases "mqtt s")
     (simp_all add: CloseAudioChannel_def SendText_def Let_def emit_def goodbye_message_def)

lemma CloseAudioChannel_main_valid:
  assumes "mqtt s \<noteq> Mqtt_deleted"
  shows "\<exists>s1. CloseAudioChannel_main net s = Inr s1 \<and> udp s1 = None
           \<and> trace s1 = trace s @ [ChannelMutexLock] @ (if udp s \<noteq> None then [DeleteUdp] else [])
                 @ [ChannelMutexUnlock]
                 @ (if mqtt s = Mqtt_nullptr \<or> publish_topic s = [] then []
                    else [MqttPublish (publish_topic s) (goodbye_message (session_id s))
                            (Publish_succeeds net)])
                 @ (if on_audio_channel_closed s then [OnAudioChannelClosed] else [])
           \<and> s1\<lparr>trace := []\<rparr> = s\<lparr>udp := None, trace := []\<rparr>"
  using assms
  by (cases "mqtt s")
     (simp_all add: CloseAudioChannel_main_def SendText_main_def Let_def emit_def goodbye_message_def)

lemma CloseAudioChannel_returns:
  assumes "CloseAudioChannel net s = Inr s'"
  shows "udp s' = None \<and> (\<exists>evs. trace s' = trace s @ evs \<and> EventGroupSetBits \<notin> set evs)"
proof -
  have "mqtt s \<noteq> Mqtt_deleted \<or> publish_topic s = []"
    using assms by (auto simp: CloseAudioChannel_def SendText_def Let_def emit_def split: mqtt_ptr.splits if_splits)
  then show ?thesis
  proof
    assume "mqtt s \<noteq> Mqtt_deleted"
    from CloseAudioChannel_valid [OF this, of net] assms show ?thesis by auto
  next
    assume "publish_topic s = []"
    with assms show ?thesis
      by (auto simp: CloseAudioChannel_def SendText_def Let_def emit_def split: mqtt_ptr.splits if_splits)
  qed
qed

lemma CloseAudioChannel_main_udp:
  assumes "CloseAudioChannel_main net s = Inr s'"
  shows "udp s' = None"
  using assms
  by (auto simp: CloseAudioChannel_main_def SendText_main_def Let_def emit_def
        split: mqtt_ptr.splits if_splits)

section \<open>Runs\<close>

lemma run_step_returns:
  assumes "run_step X st s = Inr s'"
  shows "(udp s = None \<longrightarrow> udp s' = None)
       \<and> (no_payload st \<longrightarrow> count_list (trace s') EventGroupSetBits = count_list (trace s) EventGroupSetBits)"
proof (cases st)
  case (Call_Start net)
  with assms obtain started where "StartMqttClient net False s = Inr (started, s')"
    by (auto simp: Start_def and_then_eq_Inr)
  from StartMqttClient_outcomes [OF this] show ?thesis
    by (cases started) (auto simp: connect_events_def count_list_0_iff)
next
  case (Call_OpenAudioChannel net arriving)
  with assms obtain r where "OpenAudioChannel X net arriving s = Inr (r, s')"
    by (auto simp: and_then_eq_Inr)
  from OpenAudioChannel_returns [OF this] Call_OpenAudioChannel show ?thesis
    by (auto simp: no_payload_def count_list_0_iff)
next
  case (Call_CloseAudioChannel net)
  with assms have "CloseAudioChannel net s = Inr s'" by simp
  from CloseAudioChannel_returns [OF this] show ?thesis
    by (auto simp: count_list_0_iff)
next
  case (Call_SendAudio data)
  with assms show ?thesis by (simp add: SendAudio_def)
next
  case (Payload_arrives now parsed)
  with assms have "OnMessage now parsed s = Inr s'" by simp
  from OnMessage_returns [OF this] Payload_arrives show ?thesis
    by (simp add: no_payload_def)
next
  case Connection_lost
  with assms show ?thesis by (auto simp: connection_lost_def split: mqtt_ptr.splits)
qed

lemma run_udp:
  assumes "run X steps s = Inr s'" and "udp s = None"
  shows "udp s' = None"
  using assms
proof (induction steps arbitrary: s)
  case Nil
  then show ?case by simp
next
  case (Cons st steps)
  from Cons.prems(1) obtain s1 where 1: "run_step X st s = Inr s1" and 2: "run X steps s1 = Inr s'"
    by (auto simp: and_then_eq_Inr)
  from run_step_returns [OF 1] Cons.prems(2) have "udp s1 = None" by simp
  from Cons.IH [OF 2 this] show ?case .
qed

lemma run_step_main_udp:
  assumes "run_step_main st s = Inr s'" and "udp s = None"
  shows "udp s' = None"
proof (cases st)
  case (Call_Start net)
  with assms have "StartMqttClient_main net False s = (fst (StartMqttClient_main net False s), s')"
    by (auto simp: Start_main_def)
  from StartMqttClient_main_outcomes [OF this] assms(2) show ?thesis by simp
next
  case (Call_OpenAudioChannel net arriving)
  with assms obtain r where "OpenAudioChannel_main net s = Inr (r, s')"
    by (auto simp: and_then_eq_Inr)
  from OpenAudioChannel_main_returns [OF this] assms(2) show ?thesis by simp
next
  case (Call_CloseAudioChannel net)
  with assms show ?thesis by (simp add: CloseAudioChannel_main_udp)
next
  case (Call_SendAudio data)
  with assms show ?thesis by (auto simp: SendAudio_def)
next
  case (Payload_arrives now parsed)
  with assms show ?thesis by (auto dest: OnMessage_main_udp)
next
  case Connection_lost
  with assms show ?thesis by (auto simp: connection_lost_def split: mqtt_ptr.splits)
qed

lemma run_main_udp:
  assumes "run_main steps s = Inr s'" and "udp s = None"
  shows "udp s' = None"
  using assms
proof (induction steps arbitrary: s)
  case Nil
  then show ?case by simp
next
  case (Cons st steps)
  from Cons.prems(1) obtain s1 where 1: "run_step_main st s = Inr s1" and 2: "run_main steps s1 = Inr s'"
    by (auto simp: and_then_eq_Inr)
  from Cons.IH [OF 2 run_step_main_udp [OF 1 Cons.prems(2)]] show ?case .
qed

lemma ctor_udp [simp]: "udp (BemfaProtocol_ctor raw) = None"
  by (simp add: BemfaProtocol_ctor_def)

text \<open>The definitions that evaluate a lookup in a concrete JSON tree.\<close>

lemmas json_eval = cJSON_GetObjectItem_def tolower_def valuestring_def valueint_def c_str_def deref_def

lemma run_step_no_signal:
  assumes "run_step X st s = Inr s'" and "no_payload st"
  shows "\<exists>evs. trace s' = trace s @ evs \<and> EventGroupSetBits \<notin> set evs"
proof (cases st)
  case (Call_Start net)
  with assms obtain started where "StartMqttClient net False s = Inr (started, s')"
    by (auto simp: Start_def and_then_eq_Inr)
  from StartMqttClient_outcomes [OF this] show ?thesis
    by (cases started) (auto simp: connect_events_def)
next
  case (Call_OpenAudioChannel net arriving)
  with assms obtain r where "OpenAudioChannel X net arriving s = Inr (r, s')"
    by (auto simp: and_then_eq_Inr)
  from OpenAudioChannel_returns [OF this] Call_OpenAudioChannel assms(2) show ?thesis
    by (auto simp: no_payload_def)
next
  case (Call_CloseAudioChannel net)
  with assms have "CloseAudioChannel net s = Inr s'" by simp
  from CloseAudioChannel_returns [OF this] show ?thesis by simp
next
  case (Call_SendAudio data)
  with assms show ?thesis by (simp add: SendAudio_def)
next
  case (Payload_arrives now parsed)
  with assms show ?thesis by (simp add: no_payload_def)
next
  case Connection_lost
  with assms show ?thesis by (auto simp: connection_lost_def split: mqtt_ptr.splits)
qed

section \<open>Opening the channel: the hello request and the wait\<close>







section \<open>The server hello\<close>

text \<open>
  C6. Whenever \<^verbatim>\<open>ParseServerHello\<close> returns on a hello with the transport \<^verbatim>\<open>"udp"\<close> and a
  \<^verbatim>\<open>udp\<close> object (it returns on such a hello only when the object has its four members),
  \<open>local_sequence\<close> and \<open>remote_sequence\<close> are 0 and the parse has added exactly one event,
  the setting of the event bit; whenever it returns on any other hello it has added no event.
  The parse does return on every hello that is complete (\<open>hello_complete\<close>: the four members
  are there and the members read as text are strings). Nothing else signals: the handler adds
  one setting of the bit for a payload that is a complete hello and none for any other payload;
  and no call of the application's task (\<^verbatim>\<open>Start\<close>, \<^verbatim>\<open>OpenAudioChannel\<close>, \<^verbatim>\<open>CloseAudioChannel\<close>,
  \<^verbatim>\<open>SendAudio\<close>) nor the loss of the connection sets the bit, as long as no payload is handled
  meanwhile.
\<close>

theorem hello_signals_exactly_once:
  "(ParseServerHello root s = Inr s' \<longrightarrow>
      (if hello_for_udp root
       then local_sequence s' = 0 \<and> remote_sequence s' = 0 \<and> event_group s'
            \<and> events_since s s' = [EventGroupSetBits]
       else events_since s s' = []))
   \<and> (hello_complete root \<longrightarrow> hello_for_udp root \<and> (\<exists>s1. ParseServerHello root s = Inr s1))
   \<and> (OnMessage now parsed s = Inr s' \<longrightarrow>
        count_list (events_since s s') EventGroupSetBits = (if complete_hello_payload parsed then 1 else 0))
   \<and> (run_step X st s = Inr s' \<and> no_payload st \<longrightarrow> EventGroupSetBits \<notin> set (events_since s s'))"
proof -
  have 1: "if hello_for_udp root
       then local_sequence s' = 0 \<and> remote_sequence s' = 0 \<and> event_group s'
            \<and> events_since s s' = [EventGroupSetBits]
       else events_since s s' = []" if "ParseServerHello root s = Inr s'"
    using ParseServerHello_returns [OF that] by (cases "hello_complete root") simp_all
  have 2: "hello_for_udp root \<and> (\<exists>s1. ParseServerHello root s = Inr s1)" if "hello_complete root"
  proof -
    from ParseServerHello_complete [OF that, of s] obtain s1 where "ParseServerHello root s = Inr s1"
      by blast
    with ParseServerHello_returns [OF this] that show ?thesis by blast
  qed
  have 3: "count_list (events_since s s') EventGroupSetBits = (if complete_hello_payload parsed then 1 else 0)"
    if "OnMessage now parsed s = Inr s'"
    using OnMessage_returns [OF that] by auto
  have 4: "EventGroupSetBits \<notin> set (events_since s s')" if "run_step X st s = Inr s'" and "no_payload st"
    using run_step_no_signal [OF that] by auto
  from 1 2 3 4 show ?thesis by blast
qed

text \<open>
  The theorem at \<open>example_hello\<close> (complete), at \<open>hello_without_udp\<close> (no \<^verbatim>\<open>udp\<close> object), at
  the handler with \<open>example_hello\<close> as the payload, and at a call of \<^verbatim>\<open>CloseAudioChannel\<close>.
\<close>

theorem hello_signals_exactly_once_witness:
  "hello_complete example_hello \<and> hello_for_udp example_hello
   \<and> (\<exists>s1. ParseServerHello example_hello (BemfaProtocol_ctor example_storage) = Inr s1
         \<and> local_sequence s1 = 0 \<and> remote_sequence s1 = 0 \<and> event_group s1
         \<and> events_since (BemfaProtocol_ctor example_storage) s1 = [EventGroupSetBits])
   \<and> \<not> hello_for_udp hello_without_udp
   \<and> (\<exists>s'. ParseServerHello hello_without_udp (BemfaProtocol_ctor example_storage) = Inr s'
         \<and> events_since (BemfaProtocol_ctor example_storage) s' = [])
   \<and> (\<exists>s'. OnMessage 5 (Some example_hello) (BemfaProtocol_ctor example_storage) = Inr s'
         \<and> count_list (events_since (BemfaProtocol_ctor example_storage) s') EventGroupSetBits = 1)
   \<and> no_payload (Call_CloseAudioChannel all_succeed)
   \<and> (\<exists>s'. run_step example_decls (Call_CloseAudioChannel all_succeed) (BemfaProtocol_ctor example_storage) = Inr s'
         \<and> EventGroupSetBits \<notin> set (events_since (BemfaProtocol_ctor example_storage) s'))"
proof -
  let ?s = "BemfaProtocol_ctor example_storage"
  have hc: "hello_complete example_hello"
    by (simp add: hello_complete_def udp_complete_def is_string_def example_hello_def json_eval)
  have nhu: "\<not> hello_for_udp hello_without_udp"
    by (simp add: hello_for_udp_def hello_without_udp_def json_eval)
  have payload: "complete_hello_payload (Some example_hello)"
    using hc by (simp add: complete_hello_payload_def example_hello_def json_eval)
  have np: "no_payload (Call_CloseAudioChannel all_succeed)"
    by (simp add: no_payload_def)
  have p2: "ParseServerHello hello_without_udp ?s = Inr (?s\<lparr>session_id := ''s2''\<rparr>)"
    by (simp add: ParseServerHello_def hello_without_udp_def json_eval)
  from hello_signals_exactly_once [of example_hello ?s _ 5 None example_decls "Call_Start all_succeed"] hc
  obtain s1 where hu: "hello_for_udp example_hello" and p1: "ParseServerHello example_hello ?s = Inr s1"
    by blast
  have "OnMessage 5 (Some example_hello) ?s = Inr (s1\<lparr>last_incoming_time := 5\<rparr>)"
    using p1 by (simp add: OnMessage_def example_hello_def json_eval)
  then obtain s3 where p3: "OnMessage 5 (Some example_hello) ?s = Inr s3" by blast
  have "mqtt ?s \<noteq> Mqtt_deleted"
    by (simp add: BemfaProtocol_ctor_def)
  from CloseAudioChannel_valid [OF this, of all_succeed]
  obtain s4 where p4: "run_step example_decls (Call_CloseAudioChannel all_succeed) ?s = Inr s4"
    by auto
  from hello_signals_exactly_once [of example_hello ?s s1 5 None example_decls "Call_Start all_succeed"] p1 hu
  have 1: "local_sequence s1 = 0 \<and> remote_sequence s1 = 0 \<and> event_group s1
         \<and> events_since ?s s1 = [EventGroupSetBits]"
    by simp
  from hello_signals_exactly_once [of hello_without_udp ?s "?s\<lparr>session_id := ''s2''\<rparr>" 5 None example_decls "Call_Start all_succeed"] p2 nhu
  have 2: "events_since ?s (?s\<lparr>session_id := ''s2''\<rparr>) = []"
    by simp
  from hello_signals_exactly_once [of example_hello ?s s3 5 "Some example_hello" example_decls "Call_Start all_succeed"] p3 payload
  have 3: "count_list (events_since ?s s3) EventGroupSetBits = 1"
    by simp
  from hello_signals_exactly_once [of example_hello ?s s4 5 "Some example_hello" example_decls "Call_CloseAudioChannel all_succeed"] p4 np
  have 4: "EventGroupSetBits \<notin> set (events_since ?s s4)"
    by blast
  from hc hu nhu np 1 p1 2 p2 3 p3 4 p4 show ?thesis by blast
qed

text \<open>
  C4. The claim holds for a transport that is a string other than \<^verbatim>\<open>"udp"\<close> (the theorem after
  this one), and the code breaks it for a hello without a transport: the guard
  \<^verbatim>\<open>transport == nullptr || strcmp(...) != 0\<close> is true, and the log line in its body reads
  \<^verbatim>\<open>transport->valuestring\<close> through the null pointer. Instead of returning with the session
  untouched the handler faults.
\<close>

theorem ParseServerHello_absent_transport_faults:
  "ParseServerHello hello_without_transport s = Inl NullPointerDereference
   \<and> OnMessage now (Some hello_without_transport) s = Inl NullPointerDereference"
  by (simp add: OnMessage_def ParseServerHello_def hello_without_transport_def json_eval)

text \<open>
  For every hello whose transport is a string other than \<^verbatim>\<open>"udp"\<close>, \<^verbatim>\<open>ParseServerHello\<close> returns
  with every member as it was and with no event, so without signalling; the handler then
  records the time of arrival and nothing else.
\<close>

theorem ParseServerHello_other_transport_unchanged:
  assumes "cJSON_GetObjectItem root ''transport'' = Some transport"
    and "valuestring transport = Some text" and "text \<noteq> ''udp''"
  shows "ParseServerHello root s = Inr s
       \<and> (cJSON_GetObjectItem root ''type'' = Some (cJSON_String ''hello'')
            \<longrightarrow> OnMessage now (Some root) s = Inr (s\<lparr>last_incoming_time := now\<rparr>))"
  using assms
  by (simp add: OnMessage_def ParseServerHello_stages c_str_def valuestring_def)

text \<open>
  The theorem at a hello that names the transport \<^verbatim>\<open>"tcp"\<close>.
\<close>

theorem ParseServerHello_other_transport_unchanged_witness:
  "cJSON_GetObjectItem hello_over_tcp ''transport'' = Some (cJSON_String ''tcp'')
   \<and> valuestring (cJSON_String ''tcp'') = Some ''tcp'' \<and> ''tcp'' \<noteq> ''udp''
   \<and> cJSON_GetObjectItem hello_over_tcp ''type'' = Some (cJSON_String ''hello'')
   \<and> ParseServerHello hello_over_tcp (BemfaProtocol_ctor example_storage)
        = Inr (BemfaProtocol_ctor example_storage)
   \<and> OnMessage 5 (Some hello_over_tcp) (BemfaProtocol_ctor example_storage)
        = Inr ((BemfaProtocol_ctor example_storage)\<lparr>last_incoming_time := 5\<rparr>)"
proof -
  have a: "cJSON_GetObjectItem hello_over_tcp ''transport'' = Some (cJSON_String ''tcp'')"
    and b: "valuestring (cJSON_String ''tcp'') = Some ''tcp''" and c: "''tcp'' \<noteq> ''udp''"
    and d: "cJSON_GetObjectItem hello_over_tcp ''type'' = Some (cJSON_String ''hello'')"
    by (simp_all add: hello_over_tcp_def json_eval)
  from ParseServerHello_other_transport_unchanged [OF a b c, of "BemfaProtocol_ctor example_storage" 5] a b c d
  show ?thesis by blast
qed

text \<open>
  C2. The code breaks the claim. For a hello with transport \<^verbatim>\<open>"udp"\<close> whose \<^verbatim>\<open>udp\<close> object lacks
  \<^verbatim>\<open>server\<close> (the same holds for \<^verbatim>\<open>port\<close>, \<^verbatim>\<open>key\<close> and \<^verbatim>\<open>nonce\<close>), the result of
  \<^verbatim>\<open>cJSON_GetObjectItem\<close> is read through without a check, and the handler faults. For a hello
  that lacks the \<^verbatim>\<open>udp\<close> object the check \<^verbatim>\<open>udp == nullptr\<close> returns without a fault, but after
  \<open>session_id\<close> has been overwritten.
\<close>

theorem ParseServerHello_unchecked_udp_members:
  "ParseServerHello hello_without_udp_server s = Inl NullPointerDereference
   \<and> OnMessage now (Some hello_without_udp_server) s = Inl NullPointerDereference
   \<and> ParseServerHello hello_without_udp s = Inr (s\<lparr>session_id := ''s2''\<rparr>)"
  by (simp add: OnMessage_def ParseServerHello_def hello_without_udp_server_def hello_without_udp_def json_eval)

text \<open>
  For every hello with transport \<^verbatim>\<open>"udp"\<close> and without the \<^verbatim>\<open>udp\<close> object, whose \<^verbatim>\<open>session_id\<close>
  is a string if there is one, \<^verbatim>\<open>ParseServerHello\<close> returns without a fault and without
  signalling, and changes no member other than \<open>session_id\<close>, \<open>server_sample_rate\<close> and
  \<open>server_frame_duration\<close>.
\<close>

theorem ParseServerHello_without_udp_object:
  assumes "cJSON_GetObjectItem root ''transport'' = Some transport"
    and "valuestring transport = Some ''udp''"
    and "cJSON_GetObjectItem root ''session_id'' = None \<or> is_string (cJSON_GetObjectItem root ''session_id'')"
    and "cJSON_GetObjectItem root ''udp'' = None"
  shows "\<exists>s'. ParseServerHello root s = Inr s' \<and> events_since s s' = []
           \<and> event_group s' = event_group s
           \<and> s'\<lparr>session_id := session_id s, server_sample_rate := server_sample_rate s,
                 server_frame_duration := server_frame_duration s\<rparr> = s"
proof -
  from read_session_id_total [OF assms(3), of s] obtain s1 where
    s1: "read_session_id root s = Inr s1" ..
  have p: "ParseServerHello root s = Inr (read_audio_params root s1)"
    using assms s1 by (simp add: ParseServerHello_stages c_str_def)
  have "s1 = s \<or> (\<exists>text. s1 = s\<lparr>session_id := text\<rparr>)"
    using s1 by (auto simp: read_session_id_def c_str_def and_then_eq_Inr split: option.splits)
  then have "(read_audio_params root s1)\<lparr>session_id := session_id s, server_sample_rate := server_sample_rate s,
                 server_frame_duration := server_frame_duration s\<rparr> = s"
    by (auto simp: read_audio_params_def Let_def split: option.splits)
  moreover have "events_since s (read_audio_params root s1) = []"
    and "event_group (read_audio_params root s1) = event_group s"
    using read_session_id_returns [OF s1] by simp_all
  ultimately show ?thesis using p by blast
qed

text \<open>
  The theorem at \<open>hello_without_udp\<close>.
\<close>

theorem ParseServerHello_without_udp_object_witness:
  "cJSON_GetObjectItem hello_without_udp ''transport'' = Some (cJSON_String ''udp'')
   \<and> valuestring (cJSON_String ''udp'') = Some ''udp''
   \<and> is_string (cJSON_GetObjectItem hello_without_udp ''session_id'')
   \<and> cJSON_GetObjectItem hello_without_udp ''udp'' = None
   \<and> (\<exists>s'. ParseServerHello hello_without_udp (BemfaProtocol_ctor example_storage) = Inr s'
         \<and> events_since (BemfaProtocol_ctor example_storage) s' = []
         \<and> s'\<lparr>session_id := session_id (BemfaProtocol_ctor example_storage),
               server_sample_rate := server_sample_rate (BemfaProtocol_ctor example_storage),
               server_frame_duration := server_frame_duration (BemfaProtocol_ctor example_storage)\<rparr>
             = BemfaProtocol_ctor example_storage)"
proof -
  have a: "cJSON_GetObjectItem hello_without_udp ''transport'' = Some (cJSON_String ''udp'')"
    and b: "valuestring (cJSON_String ''udp'') = Some ''udp''"
    and c: "is_string (cJSON_GetObjectItem hello_without_udp ''session_id'')"
    and d: "cJSON_GetObjectItem hello_without_udp ''udp'' = None"
    by (simp_all add: hello_without_udp_def is_string_def json_eval)
  from c have c': "cJSON_GetObjectItem hello_without_udp ''session_id'' = None
      \<or> is_string (cJSON_GetObjectItem hello_without_udp ''session_id'')" ..
  from ParseServerHello_without_udp_object [OF a b c' d, of "BemfaProtocol_ctor example_storage"] a b c d
  show ?thesis by blast
qed

section \<open>Closing the channel and the goodbye message\<close>

text \<open>
  C7, as amended. The claim says that every call of \<^verbatim>\<open>CloseAudioChannel\<close> publishes a goodbye
  message. The code hands the message to \<^verbatim>\<open>SendText\<close>, which publishes only when there is an MQTT
  client and the publish topic is not empty. What holds, for every state whose MQTT pointer is
  null or points to a client, and for both versions of the file (the second publishes on the
  topic without \<^verbatim>\<open>/set\<close>): two consecutive calls both return without a fault; each takes the
  channel mutex, deletes the datagram handle if there is one (the second call finds none) and
  releases the mutex; each then publishes \<open>goodbye_message\<close> with the current \<open>session_id\<close>
  whenever there is a client and a topic, whether or not there was a handle and whatever the
  publish returns; each calls the channel-closed callback if one is registered; the first call
  changes no member but the handle, and the second changes none.
\<close>

theorem CloseAudioChannel_twice:
  assumes "mqtt s \<noteq> Mqtt_deleted"
  shows "(\<exists>s1 s2. CloseAudioChannel net1 s = Inr s1 \<and> CloseAudioChannel net2 s1 = Inr s2
           \<and> udp s1 = None \<and> udp s2 = None
           \<and> events_since s s1 =
               [ChannelMutexLock] @ (if udp s \<noteq> None then [DeleteUdp] else []) @ [ChannelMutexUnlock]
               @ (if mqtt s = Mqtt_nullptr \<or> publish_topic s = [] then []
                  else [MqttPublish (publish_topic s @ ''/set'') (goodbye_message (session_id s))
                          (Publish_succeeds net1)])
               @ (if on_audio_channel_closed s then [OnAudioChannelClosed] else [])
           \<and> events_since s1 s2 =
               [ChannelMutexLock, ChannelMutexUnlock]
               @ (if mqtt s = Mqtt_nullptr \<or> publish_topic s = [] then []
                  else [MqttPublish (publish_topic s @ ''/set'') (goodbye_message (session_id s))
                          (Publish_succeeds net2)])
               @ (if on_audio_channel_closed s then [OnAudioChannelClosed] else [])
           \<and> s1\<lparr>trace := []\<rparr> = s\<lparr>udp := None, trace := []\<rparr>
           \<and> s2\<lparr>trace := []\<rparr> = s1\<lparr>trace := []\<rparr>)
       \<and> (\<exists>s1 s2. CloseAudioChannel_main net1 s = Inr s1 \<and> CloseAudioChannel_main net2 s1 = Inr s2
           \<and> udp s1 = None \<and> udp s2 = None
           \<and> events_since s s1 =
               [ChannelMutexLock] @ (if udp s \<noteq> None then [DeleteUdp] else []) @ [ChannelMutexUnlock]
               @ (if mqtt s = Mqtt_nullptr \<or> publish_topic s = [] then []
                  else [MqttPublish (publish_topic s) (goodbye_message (session_id s))
                          (Publish_succeeds net1)])
               @ (if on_audio_channel_closed s then [OnAudioChannelClosed] else [])
           \<and> events_since s1 s2 =
               [ChannelMutexLock, ChannelMutexUnlock]
               @ (if mqtt s = Mqtt_nullptr \<or> publish_topic s = [] then []
                  else [MqttPublish (publish_topic s) (goodbye_message (session_id s))
                          (Publish_succeeds net2)])
               @ (if on_audio_channel_closed s then [OnAudioChannelClosed] else [])
           \<and> s1\<lparr>trace := []\<rparr> = s\<lparr>udp := None, trace := []\<rparr>
           \<and> s2\<lparr>trace := []\<rparr> = s1\<lparr>trace := []\<rparr>)"
proof -
  have members: "mqtt s1 = mqtt s \<and> publish_topic s1 = publish_topic s \<and> session_id s1 = session_id s
      \<and> on_audio_channel_closed s1 = on_audio_channel_closed s \<and> s1\<lparr>udp := None, trace := []\<rparr> = s1\<lparr>trace := []\<rparr>"
    if "s1\<lparr>trace := []\<rparr> = s\<lparr>udp := None, trace := []\<rparr>" and "udp s1 = None" for s1 :: BemfaProtocol
  proof -
    have "mqtt (s1\<lparr>trace := []\<rparr>) = mqtt (s\<lparr>udp := None, trace := []\<rparr>)"
      and "publish_topic (s1\<lparr>trace := []\<rparr>) = publish_topic (s\<lparr>udp := None, trace := []\<rparr>)"
      and "session_id (s1\<lparr>trace := []\<rparr>) = session_id (s\<lparr>udp := None, trace := []\<rparr>)"
      and "on_audio_channel_closed (s1\<lparr>trace := []\<rparr>) = on_audio_channel_closed (s\<lparr>udp := None, trace := []\<rparr>)"
      using that(1) by simp_all
    moreover have "s1\<lparr>udp := None\<rparr> = s1"
      using that(2) by (cases s1) simp
    ultimately show ?thesis by simp
  qed
  have twice: "\<exists>s1 s2. close net1 s = Inr s1 \<and> close net2 s1 = Inr s2
           \<and> udp s1 = None \<and> udp s2 = None
           \<and> events_since s s1 =
               [ChannelMutexLock] @ (if udp s \<noteq> None then [DeleteUdp] else []) @ [ChannelMutexUnlock]
               @ (if mqtt s = Mqtt_nullptr \<or> publish_topic s = [] then []
                  else [MqttPublish (topic s) (goodbye_message (session_id s)) (Publish_succeeds net1)])
               @ (if on_audio_channel_closed s then [OnAudioChannelClosed] else [])
           \<and> events_since s1 s2 =
               [ChannelMutexLock, ChannelMutexUnlock]
               @ (if mqtt s = Mqtt_nullptr \<or> publish_topic s = [] then []
                  else [MqttPublish (topic s) (goodbye_message (session_id s)) (Publish_succeeds net2)])
               @ (if on_audio_channel_closed s then [OnAudioChannelClosed] else [])
           \<and> s1\<lparr>trace := []\<rparr> = s\<lparr>udp := None, trace := []\<rparr>
           \<and> s2\<lparr>trace := []\<rparr> = s1\<lparr>trace := []\<rparr>"
    if once: "\<And>net t. mqtt t \<noteq> Mqtt_deleted \<Longrightarrow>
        \<exists>t1. close net t = Inr t1 \<and> udp t1 = None
           \<and> trace t1 = trace t @ [ChannelMutexLock] @ (if udp t \<noteq> None then [DeleteUdp] else [])
                 @ [ChannelMutexUnlock]
                 @ (if mqtt t = Mqtt_nullptr \<or> publish_topic t = [] then []
                    else [MqttPublish (topic t) (goodbye_message (session_id t)) (Publish_succeeds net)])
                 @ (if on_audio_channel_closed t then [OnAudioChannelClosed] else [])
           \<and> t1\<lparr>trace := []\<rparr> = t\<lparr>udp := None, trace := []\<rparr>"
      and topic: "\<And>t t'. publish_topic t' = publish_topic t \<Longrightarrow> topic t' = topic t"
    for close :: "network \<Rightarrow> BemfaProtocol \<Rightarrow> fault + BemfaProtocol" and topic
  proof -
    from once [OF assms, of net1] obtain s1 where
      c1: "close net1 s = Inr s1" and u1: "udp s1 = None"
      and t1: "trace s1 = trace s @ [ChannelMutexLock] @ (if udp s \<noteq> None then [DeleteUdp] else [])
                 @ [ChannelMutexUnlock]
                 @ (if mqtt s = Mqtt_nullptr \<or> publish_topic s = [] then []
                    else [MqttPublish (topic s) (goodbye_message (session_id s)) (Publish_succeeds net1)])
                 @ (if on_audio_channel_closed s then [OnAudioChannelClosed] else [])"
      and e1: "s1\<lparr>trace := []\<rparr> = s\<lparr>udp := None, trace := []\<rparr>"
      by blast
    note m = members [OF e1 u1]
    then have "mqtt s1 \<noteq> Mqtt_deleted" using assms by simp
    from once [OF this, of net2] obtain s2 where
      c2: "close net2 s1 = Inr s2" and u2: "udp s2 = None"
      and t2: "trace s2 = trace s1 @ [ChannelMutexLock] @ (if udp s1 \<noteq> None then [DeleteUdp] else [])
                 @ [ChannelMutexUnlock]
                 @ (if mqtt s1 = Mqtt_nullptr \<or> publish_topic s1 = [] then []
                    else [MqttPublish (topic s1) (goodbye_message (session_id s1)) (Publish_succeeds net2)])
                 @ (if on_audio_channel_closed s1 then [OnAudioChannelClosed] else [])"
      and e2: "s2\<lparr>trace := []\<rparr> = s1\<lparr>udp := None, trace := []\<rparr>"
      by blast
    have "topic s1 = topic s" using m by (intro topic) simp
    with t2 m u1 have t2': "trace s2 = trace s1 @ ([ChannelMutexLock, ChannelMutexUnlock]
               @ (if mqtt s = Mqtt_nullptr \<or> publish_topic s = [] then []
                  else [MqttPublish (topic s) (goodbye_message (session_id s)) (Publish_succeeds net2)])
               @ (if on_audio_channel_closed s then [OnAudioChannelClosed] else []))"
      by simp
    have "s2\<lparr>trace := []\<rparr> = s1\<lparr>trace := []\<rparr>" using e2 m by simp
    with c1 c2 u1 u2 e1 events_since_append [OF t1] events_since_append [OF t2'] show ?thesis
      by blast
  qed
  have "\<exists>s1 s2. CloseAudioChannel net1 s = Inr s1 \<and> CloseAudioChannel net2 s1 = Inr s2
           \<and> udp s1 = None \<and> udp s2 = None
           \<and> events_since s s1 =
               [ChannelMutexLock] @ (if udp s \<noteq> None then [DeleteUdp] else []) @ [ChannelMutexUnlock]
               @ (if mqtt s = Mqtt_nullptr \<or> publish_topic s = [] then []
                  else [MqttPublish (publish_topic s @ ''/set'') (goodbye_message (session_id s))
                          (Publish_succeeds net1)])
               @ (if on_audio_channel_closed s then [OnAudioChannelClosed] else [])
           \<and> events_since s1 s2 =
               [ChannelMutexLock, ChannelMutexUnlock]
               @ (if mqtt s = Mqtt_nullptr \<or> publish_topic s = [] then []
                  else [MqttPublish (publish_topic s @ ''/set'') (goodbye_message (session_id s))
                          (Publish_succeeds net2)])
               @ (if on_audio_channel_closed s then [OnAudioChannelClosed] else [])
           \<and> s1\<lparr>trace := []\<rparr> = s\<lparr>udp := None, trace := []\<rparr>
           \<and> s2\<lparr>trace := []\<rparr> = s1\<lparr>trace := []\<rparr>"
    by (rule twice [of CloseAudioChannel "\<lambda>t. publish_topic t @ ''/set''"])
       (rule CloseAudioChannel_valid, assumption, simp)
  moreover have "\<exists>s1 s2. CloseAudioChannel_main net1 s = Inr s1 \<and> CloseAudioChannel_main net2 s1 = Inr s2
           \<and> udp s1 = None \<and> udp s2 = None
           \<and> events_since s s1 =
               [ChannelMutexLock] @ (if udp s \<noteq> None then [DeleteUdp] else []) @ [ChannelMutexUnlock]
               @ (if mqtt s = Mqtt_nullptr \<or> publish_topic s = [] then []
                  else [MqttPublish (publish_topic s) (goodbye_message (session_id s))
                          (Publish_succeeds net1)])
               @ (if on_audio_channel_closed s then [OnAudioChannelClosed] else [])
           \<and> events_since s1 s2 =
               [ChannelMutexLock, ChannelMutexUnlock]
               @ (if mqtt s = Mqtt_nullptr \<or> publish_topic s = [] then []
                  else [MqttPublish (publish_topic s) (goodbye_message (session_id s))
                          (Publish_succeeds net2)])
               @ (if on_audio_channel_closed s then [OnAudioChannelClosed] else [])
           \<and> s1\<lparr>trace := []\<rparr> = s\<lparr>udp := None, trace := []\<rparr>
           \<and> s2\<lparr>trace := []\<rparr> = s1\<lparr>trace := []\<rparr>"
    by (rule twice [of CloseAudioChannel_main publish_topic])
       (rule CloseAudioChannel_main_valid, assumption, simp)
  ultimately show ?thesis by (rule conjI)
qed

text \<open>
  The theorem at a state with a client and a datagram handle: the first call deletes the handle
  under the mutex and publishes the goodbye, the second, whose publish fails, still hands the
  goodbye to the client and calls the callback.
\<close>

theorem CloseAudioChannel_twice_witness:
  \<open>mqtt ((BemfaProtocol_ctor example_storage)\<lparr>mqtt := Mqtt_object True, udp := Some Udp\<rparr>) \<noteq> Mqtt_deleted
   \<and> (\<exists>s1 s2.
         CloseAudioChannel all_succeed
           ((BemfaProtocol_ctor example_storage)\<lparr>mqtt := Mqtt_object True, udp := Some Udp\<rparr>) = Inr s1
         \<and> CloseAudioChannel publish_fails s1 = Inr s2
         \<and> udp s1 = None \<and> udp s2 = None
         \<and> events_since ((BemfaProtocol_ctor example_storage)\<lparr>mqtt := Mqtt_object True, udp := Some Udp\<rparr>) s1
              = [ChannelMutexLock, DeleteUdp, ChannelMutexUnlock,
                 MqttPublish ''testtopic/set'' (goodbye_message []) True, OnAudioChannelClosed]
         \<and> events_since s1 s2
              = [ChannelMutexLock, ChannelMutexUnlock,
                 MqttPublish ''testtopic/set'' (goodbye_message []) False, OnAudioChannelClosed]
         \<and> s2\<lparr>trace := []\<rparr> = s1\<lparr>trace := []\<rparr>)
   \<and> goodbye_message [] = ''{"session_id":"","type":"goodbye"}''\<close>
proof -
  let ?s = "(BemfaProtocol_ctor example_storage)\<lparr>mqtt := Mqtt_object True, udp := Some Udp\<rparr>"
  have literal: \<open>goodbye_message [] = ''{"session_id":"","type":"goodbye"}''\<close>
    by (simp add: goodbye_message_def)
  have h: "mqtt ?s \<noteq> Mqtt_deleted" by simp
  from CloseAudioChannel_twice [OF h, of all_succeed publish_fails] obtain s1 s2 where
    "CloseAudioChannel all_succeed ?s = Inr s1" "CloseAudioChannel publish_fails s1 = Inr s2"
    "udp s1 = None" "udp s2 = None"
    "events_since ?s s1 =
               [ChannelMutexLock] @ (if udp ?s \<noteq> None then [DeleteUdp] else []) @ [ChannelMutexUnlock]
               @ (if mqtt ?s = Mqtt_nullptr \<or> publish_topic ?s = [] then []
                  else [MqttPublish (publish_topic ?s @ ''/set'') (goodbye_message (session_id ?s))
                          (Publish_succeeds all_succeed)])
               @ (if on_audio_channel_closed ?s then [OnAudioChannelClosed] else [])"
    "events_since s1 s2 =
               [ChannelMutexLock, ChannelMutexUnlock]
               @ (if mqtt ?s = Mqtt_nullptr \<or> publish_topic ?s = [] then []
                  else [MqttPublish (publish_topic ?s @ ''/set'') (goodbye_message (session_id ?s))
                          (Publish_succeeds publish_fails)])
               @ (if on_audio_channel_closed ?s then [OnAudioChannelClosed] else [])"
    "s2\<lparr>trace := []\<rparr> = s1\<lparr>trace := []\<rparr>"
    by blast
  then have "CloseAudioChannel all_succeed ?s = Inr s1 \<and> CloseAudioChannel publish_fails s1 = Inr s2
         \<and> udp s1 = None \<and> udp s2 = None
         \<and> events_since ?s s1
              = [ChannelMutexLock, DeleteUdp, ChannelMutexUnlock,
                 MqttPublish ''testtopic/set'' (goodbye_message []) True, OnAudioChannelClosed]
         \<and> events_since s1 s2
              = [ChannelMutexLock, ChannelMutexUnlock,
                 MqttPublish ''testtopic/set'' (goodbye_message []) False, OnAudioChannelClosed]
         \<and> s2\<lparr>trace := []\<rparr> = s1\<lparr>trace := []\<rparr>"
    by (simp add: BemfaProtocol_ctor_def example_storage_def all_succeed_def publish_fails_def)
  with h literal show ?thesis by blast
qed

text \<open>
  The claim as stated fails at the freshly constructed object, which has no MQTT client: the
  call takes and releases the mutex and calls the callback, and publishes nothing.
\<close>

theorem CloseAudioChannel_without_client_publishes_nothing:
  "CloseAudioChannel all_succeed (BemfaProtocol_ctor example_storage)
     = Inr ((BemfaProtocol_ctor example_storage)
              \<lparr>trace := [ChannelMutexLock, ChannelMutexUnlock, OnAudioChannelClosed]\<rparr>)"
  by (simp add: CloseAudioChannel_def SendText_def emit_def BemfaProtocol_ctor_def example_storage_def)

text \<open>
  C8, as amended. The claim fails in two ways. It says that a goodbye of another session leaves
  the state unchanged; the handler records the time of arrival of every message it has
  handled, this one included: that is the code's design. And it speaks of every goodbye; on a
  goodbye whose \<^verbatim>\<open>session_id\<close> is not a JSON string, \<^verbatim>\<open>session_id->valuestring\<close> is the null
  pointer, and the comparison \<^verbatim>\<open>session_id_ == session_id->valuestring\<close> reads through it: that
  is a defect of the code, which tests \<^verbatim>\<open>session_id == nullptr\<close> and not the string.
  What holds, for every goodbye, every state and both versions of the file (they give the same
  result on every goodbye):
  \<^item> if the message has no \<^verbatim>\<open>session_id\<close>, or one that equals the \<open>session_id\<close> the controller
    holds, the handler returns, having added one event, the scheduling of
    \<^verbatim>\<open>CloseAudioChannel\<close> on the application's task (the call itself is not made: no mutex, no
    publish, no callback), and having set \<open>last_incoming_time\<close>;
  \<^item> if the message has a \<^verbatim>\<open>session_id\<close> that differs from the one the controller holds, no
    close is scheduled: whenever the handler returns, the state is the one before with
    \<open>last_incoming_time\<close> set, and it does return when the \<^verbatim>\<open>session_id\<close> is a string;
  \<^item> whenever the handler returns on a goodbye, \<open>last_incoming_time\<close> is the time of arrival
    and the only event it can have added is the scheduling of the close;
  \<^item> on a \<^verbatim>\<open>session_id\<close> that is not a string the handler does not return: it faults.
\<close>

theorem goodbye_schedules_close:
  assumes "cJSON_GetObjectItem root ''type'' = Some type" and "valuestring type = Some ''goodbye''"
  shows "(cJSON_GetObjectItem root ''session_id'' = None \<longrightarrow>
            OnMessage now (Some root) s
              = Inr ((emit ScheduleCloseAudioChannel s)\<lparr>last_incoming_time := now\<rparr>))
       \<and> (\<forall>item. cJSON_GetObjectItem root ''session_id'' = Some item
                   \<and> valuestring item = Some (session_id s) \<longrightarrow>
            OnMessage now (Some root) s
              = Inr ((emit ScheduleCloseAudioChannel s)\<lparr>last_incoming_time := now\<rparr>))
       \<and> (\<forall>item text. cJSON_GetObjectItem root ''session_id'' = Some item
                   \<and> valuestring item = Some text \<and> text \<noteq> session_id s \<longrightarrow>
            OnMessage now (Some root) s = Inr (s\<lparr>last_incoming_time := now\<rparr>))
       \<and> OnMessage_main now (Some root) s = OnMessage now (Some root) s
       \<and> (\<forall>item s'. cJSON_GetObjectItem root ''session_id'' = Some item
                   \<and> valuestring item \<noteq> Some (session_id s)
                   \<and> OnMessage now (Some root) s = Inr s' \<longrightarrow>
            s' = s\<lparr>last_incoming_time := now\<rparr>)
       \<and> (\<forall>s'. OnMessage now (Some root) s = Inr s' \<longrightarrow>
            last_incoming_time s' = now
            \<and> (events_since s s' = [] \<or> events_since s s' = [ScheduleCloseAudioChannel]))
       \<and> (\<forall>item. cJSON_GetObjectItem root ''session_id'' = Some item \<and> valuestring item = None \<longrightarrow>
            OnMessage now (Some root) s = Inl NullPointerDereference)"
proof -
  have goodbye: "OnMessage now (Some root) s =
      and_then
        (case cJSON_GetObjectItem root ''session_id'' of
           None \<Rightarrow> Inr (emit ScheduleCloseAudioChannel s)
         | Some session_id_item \<Rightarrow>
             and_then (c_str (valuestring session_id_item)) (\<lambda>text.
               Inr (if session_id s = text then emit ScheduleCloseAudioChannel s else s)))
        (\<lambda>s'. Inr (s'\<lparr>last_incoming_time := now\<rparr>))"
    using assms by (simp add: OnMessage_def c_str_def)
  have same: "OnMessage_main now (Some root) s = OnMessage now (Some root) s"
    using assms by (simp add: OnMessage_def OnMessage_main_def c_str_def)
  have absent: "OnMessage now (Some root) s
      = Inr ((emit ScheduleCloseAudioChannel s)\<lparr>last_incoming_time := now\<rparr>)"
    if "cJSON_GetObjectItem root ''session_id'' = None"
    using that by (simp add: goodbye)
  have present: "OnMessage now (Some root) s
      = Inr ((if session_id s = literal then emit ScheduleCloseAudioChannel s else s)
               \<lparr>last_incoming_time := now\<rparr>)"
    if "cJSON_GetObjectItem root ''session_id'' = Some item" and "valuestring item = Some literal"
    for item literal
    using that by (simp add: goodbye c_str_def)
  have no_string: "OnMessage now (Some root) s = Inl NullPointerDereference"
    if "cJSON_GetObjectItem root ''session_id'' = Some item" and "valuestring item = None"
    for item
    using that by (simp add: goodbye c_str_def)
  have differs: "s' = s\<lparr>last_incoming_time := now\<rparr>"
    if "cJSON_GetObjectItem root ''session_id'' = Some item"
      and "valuestring item \<noteq> Some (session_id s)"
      and "OnMessage now (Some root) s = Inr s'"
    for item s'
  proof (cases "valuestring item")
    case None
    with no_string [OF that(1)] that(3) show ?thesis by simp
  next
    case (Some literal)
    with present [OF that(1) Some] that(2, 3) show ?thesis by auto
  qed
  have returned: "last_incoming_time s' = now
      \<and> (events_since s s' = [] \<or> events_since s s' = [ScheduleCloseAudioChannel])"
    if ret: "OnMessage now (Some root) s = Inr s'" for s'
  proof (cases "cJSON_GetObjectItem root ''session_id''")
    case None
    with absent ret have "s' = (emit ScheduleCloseAudioChannel s)\<lparr>last_incoming_time := now\<rparr>"
      by simp
    then show ?thesis by (simp add: events_since_def)
  next
    case (Some item)
    show ?thesis
    proof (cases "valuestring item")
      case None
      with no_string [OF Some] ret show ?thesis by simp
    next
      case (Some literal)
      with present [OF \<open>cJSON_GetObjectItem root ''session_id'' = Some item\<close> Some] ret
      have "s' = (if session_id s = literal then emit ScheduleCloseAudioChannel s else s)
                   \<lparr>last_incoming_time := now\<rparr>"
        by simp
      then show ?thesis by (simp add: events_since_def)
    qed
  qed
  from absent present [where literal = "session_id s"] present same differs returned no_string
  show ?thesis by (intro conjI allI impI) (auto simp del: and_then_simps)
qed

text \<open>
  The theorem at a goodbye without a session id, at a goodbye of session \<^verbatim>\<open>s2\<close> received by a
  controller in session \<^verbatim>\<open>s2\<close>, at the same goodbye received by a controller in no session, and
  at a goodbye whose \<^verbatim>\<open>session_id\<close> is the number 5.
\<close>

theorem goodbye_schedules_close_witness:
  "cJSON_GetObjectItem goodbye_without_session ''type'' = Some (cJSON_String ''goodbye'')
   \<and> cJSON_GetObjectItem goodbye_of_other_session ''type'' = Some (cJSON_String ''goodbye'')
   \<and> cJSON_GetObjectItem goodbye_with_number_as_session ''type'' = Some (cJSON_String ''goodbye'')
   \<and> valuestring (cJSON_String ''goodbye'') = Some ''goodbye''
   \<and> cJSON_GetObjectItem goodbye_without_session ''session_id'' = None
   \<and> cJSON_GetObjectItem goodbye_of_other_session ''session_id'' = Some (cJSON_String ''s2'')
   \<and> valuestring (cJSON_String ''s2'') = Some ''s2''
   \<and> OnMessage 5 (Some goodbye_without_session) (BemfaProtocol_ctor example_storage)
        = Inr ((emit ScheduleCloseAudioChannel (BemfaProtocol_ctor example_storage))\<lparr>last_incoming_time := 5\<rparr>)
   \<and> OnMessage 5 (Some goodbye_of_other_session) ((BemfaProtocol_ctor example_storage)\<lparr>session_id := ''s2''\<rparr>)
        = Inr ((emit ScheduleCloseAudioChannel ((BemfaProtocol_ctor example_storage)\<lparr>session_id := ''s2''\<rparr>))
                 \<lparr>last_incoming_time := 5\<rparr>)
   \<and> ''s2'' \<noteq> session_id (BemfaProtocol_ctor example_storage)
   \<and> OnMessage 5 (Some goodbye_of_other_session) (BemfaProtocol_ctor example_storage)
        = Inr ((BemfaProtocol_ctor example_storage)\<lparr>last_incoming_time := 5\<rparr>)
   \<and> OnMessage_main 5 (Some goodbye_of_other_session) (BemfaProtocol_ctor example_storage)
        = Inr ((BemfaProtocol_ctor example_storage)\<lparr>last_incoming_time := 5\<rparr>)
   \<and> valuestring (cJSON_String ''s2'') \<noteq> Some (session_id (BemfaProtocol_ctor example_storage))
   \<and> last_incoming_time ((BemfaProtocol_ctor example_storage)\<lparr>last_incoming_time := 5\<rparr>) = 5
   \<and> events_since (BemfaProtocol_ctor example_storage)
        ((BemfaProtocol_ctor example_storage)\<lparr>last_incoming_time := 5\<rparr>) = []
   \<and> cJSON_GetObjectItem goodbye_with_number_as_session ''session_id'' = Some (cJSON_Number 5)
   \<and> valuestring (cJSON_Number 5) = None
   \<and> OnMessage 5 (Some goodbye_with_number_as_session) (BemfaProtocol_ctor example_storage)
        = Inl NullPointerDereference
   \<and> OnMessage_main 5 (Some goodbye_with_number_as_session) (BemfaProtocol_ctor example_storage)
        = Inl NullPointerDereference"
proof -
  let ?s = "BemfaProtocol_ctor example_storage"
  have t1: "cJSON_GetObjectItem goodbye_without_session ''type'' = Some (cJSON_String ''goodbye'')"
    and t2: "cJSON_GetObjectItem goodbye_of_other_session ''type'' = Some (cJSON_String ''goodbye'')"
    and t3: "cJSON_GetObjectItem goodbye_with_number_as_session ''type'' = Some (cJSON_String ''goodbye'')"
    and v: "valuestring (cJSON_String ''goodbye'') = Some ''goodbye''"
    and i1: "cJSON_GetObjectItem goodbye_without_session ''session_id'' = None"
    and i2: "cJSON_GetObjectItem goodbye_of_other_session ''session_id'' = Some (cJSON_String ''s2'')"
    and v2: "valuestring (cJSON_String ''s2'') = Some ''s2''"
    and i3: "cJSON_GetObjectItem goodbye_with_number_as_session ''session_id'' = Some (cJSON_Number 5)"
    and v3: "valuestring (cJSON_Number 5) = None"
    by (simp_all add: goodbye_without_session_def goodbye_of_other_session_def
        goodbye_with_number_as_session_def json_eval)
  have sid: "session_id (?s\<lparr>session_id := ''s2''\<rparr>) = ''s2''" and ne: "''s2'' \<noteq> session_id ?s"
    by (simp_all add: BemfaProtocol_ctor_def example_storage_def)
  from v2 ne have ne': "valuestring (cJSON_String ''s2'') \<noteq> Some (session_id ?s)" by simp
  from goodbye_schedules_close [OF t1 v, of 5 ?s] i1
  have a: "OnMessage 5 (Some goodbye_without_session) ?s
        = Inr ((emit ScheduleCloseAudioChannel ?s)\<lparr>last_incoming_time := 5\<rparr>)"
    by blast
  from goodbye_schedules_close [OF t2 v, of 5 "?s\<lparr>session_id := ''s2''\<rparr>"] i2 v2 sid
  have b: "OnMessage 5 (Some goodbye_of_other_session) (?s\<lparr>session_id := ''s2''\<rparr>)
        = Inr ((emit ScheduleCloseAudioChannel (?s\<lparr>session_id := ''s2''\<rparr>))\<lparr>last_incoming_time := 5\<rparr>)"
    by metis
  note other = goodbye_schedules_close [OF t2 v, of 5 ?s]
  from other i2 v2 ne
  have c: "OnMessage 5 (Some goodbye_of_other_session) ?s = Inr (?s\<lparr>last_incoming_time := 5\<rparr>)"
    by metis
  from other c
  have d: "OnMessage_main 5 (Some goodbye_of_other_session) ?s = Inr (?s\<lparr>last_incoming_time := 5\<rparr>)"
    by metis
  from other c
  have e: "last_incoming_time (?s\<lparr>last_incoming_time := 5\<rparr>) = 5
      \<and> (events_since ?s (?s\<lparr>last_incoming_time := 5\<rparr>) = []
          \<or> events_since ?s (?s\<lparr>last_incoming_time := 5\<rparr>) = [ScheduleCloseAudioChannel])"
    by blast
  then have e1: "last_incoming_time (?s\<lparr>last_incoming_time := 5\<rparr>) = 5"
    and e2: "events_since ?s (?s\<lparr>last_incoming_time := 5\<rparr>) = []"
    by (simp_all add: events_since_def)
  note number = goodbye_schedules_close [OF t3 v, of 5 ?s]
  from number i3 v3
  have f: "OnMessage 5 (Some goodbye_with_number_as_session) ?s = Inl NullPointerDereference"
    by blast
  from number f
  have g: "OnMessage_main 5 (Some goodbye_with_number_as_session) ?s = Inl NullPointerDereference"
    by metis
  from t1 t2 t3 v i1 i2 v2 a b ne c d ne' e1 e2 i3 v3 f g show ?thesis by simp
qed

text \<open>
  The claim as stated fails at the freshly constructed object, in both ways. A goodbye of
  session \<^verbatim>\<open>s2\<close> received at time 5: no close is scheduled, and the state has changed,
  \<open>last_incoming_time\<close> being 5 instead of 0. A goodbye whose \<^verbatim>\<open>session_id\<close> is the number 5,
  which is present and differs from the empty \<open>session_id\<close> of the controller: the handler
  does not leave the state unchanged, it faults, in both versions of the file.
\<close>

theorem goodbye_of_other_session_changes_state:
  "OnMessage 5 (Some goodbye_of_other_session) (BemfaProtocol_ctor example_storage)
     = Inr ((BemfaProtocol_ctor example_storage)\<lparr>last_incoming_time := 5\<rparr>)
   \<and> (BemfaProtocol_ctor example_storage)\<lparr>last_incoming_time := 5\<rparr> \<noteq> BemfaProtocol_ctor example_storage
   \<and> OnMessage 5 (Some goodbye_with_number_as_session) (BemfaProtocol_ctor example_storage)
        = Inl NullPointerDereference
   \<and> OnMessage_main 5 (Some goodbye_with_number_as_session) (BemfaProtocol_ctor example_storage)
        = Inl NullPointerDereference"
  by (simp add: OnMessage_def OnMessage_main_def goodbye_of_other_session_def
      goodbye_with_number_as_session_def json_eval BemfaProtocol_ctor_def example_storage_def)

section \<open>The datagram handle and the liveness predicate\<close>

text \<open>
  C3. \<^verbatim>\<open>IsAudioChannelOpened\<close> is true if and only if the datagram handle is not null,
  \<open>error_occurred\<close> is false and the time since \<open>last_incoming_time\<close> is within the liveness
  window. The function is a predicate on the state: it returns no state and adds no event, so
  it changes nothing and takes no lock.
\<close>

theorem IsAudioChannelOpened_iff:
  "IsAudioChannelOpened liveness_window now s
     \<longleftrightarrow> udp s \<noteq> None \<and> \<not> error_occurred s \<and> now - last_incoming_time s \<le> liveness_window"
  by (auto simp: IsAudioChannelOpened_def IsTimeout_def)

text \<open>
  C10. Whatever is called and whatever arrives after the construction (\<^verbatim>\<open>Start\<close>,
  \<^verbatim>\<open>OpenAudioChannel\<close> with the payloads handled during its wait, \<^verbatim>\<open>CloseAudioChannel\<close>,
  \<^verbatim>\<open>SendAudio\<close>, payloads handed to the handler, the loss of the connection), in every state
  reached without a fault the datagram handle is null and \<^verbatim>\<open>IsAudioChannelOpened\<close> is false, for
  any liveness window and at any time; in both versions of the file.
\<close>

theorem udp_handle_never_created:
  "(run X steps (BemfaProtocol_ctor raw) = Inr s
      \<longrightarrow> udp s = None \<and> \<not> IsAudioChannelOpened liveness_window now s)
   \<and> (run_main steps (BemfaProtocol_ctor raw) = Inr s
      \<longrightarrow> udp s = None \<and> \<not> IsAudioChannelOpened liveness_window now s)"
  using run_udp [of X steps "BemfaProtocol_ctor raw" s]
    run_main_udp [of steps "BemfaProtocol_ctor raw" s]
  by (simp add: IsAudioChannelOpened_def)

text \<open>
  The theorem at a run that starts the client, opens the channel while a complete hello
  arrives, receives a goodbye and closes the channel.
\<close>

theorem udp_handle_never_created_witness:
  "\<exists>s s'.
     run example_decls
       [Call_Start all_succeed, Call_OpenAudioChannel all_succeed [(5, Some example_hello)],
        Payload_arrives 6 (Some goodbye_without_session), Call_CloseAudioChannel all_succeed]
       (BemfaProtocol_ctor example_storage) = Inr s
     \<and> udp s = None \<and> \<not> IsAudioChannelOpened 120 7 s
     \<and> run_main
       [Call_Start all_succeed, Call_OpenAudioChannel all_succeed [(5, Some example_hello)],
        Payload_arrives 6 (Some goodbye_without_session), Call_CloseAudioChannel all_succeed]
       (BemfaProtocol_ctor example_storage) = Inr s'
     \<and> udp s' = None \<and> \<not> IsAudioChannelOpened 120 7 s'"
proof -
  let ?steps = "[Call_Start all_succeed, Call_OpenAudioChannel all_succeed [(5, Some example_hello)],
        Payload_arrives 6 (Some goodbye_without_session), Call_CloseAudioChannel all_succeed]"
  let ?R = "run example_decls ?steps (BemfaProtocol_ctor example_storage)"
  let ?M = "run_main ?steps (BemfaProtocol_ctor example_storage)"
  have "\<not> isl ?R" by code_simp
  then have r: "?R = Inr (projr ?R)" by simp
  have "\<not> isl ?M" by code_simp
  then have m: "?M = Inr (projr ?M)" by simp
  from udp_handle_never_created [of example_decls ?steps example_storage "projr ?R" 120 7] r
  have 1: "udp (projr ?R) = None \<and> \<not> IsAudioChannelOpened 120 7 (projr ?R)" by blast
  from udp_handle_never_created [of example_decls ?steps example_storage "projr ?M" 120 7] m
  have 2: "udp (projr ?M) = None \<and> \<not> IsAudioChannelOpened 120 7 (projr ?M)" by blast
  from r m 1 2 show ?thesis by blast
qed

end
